theory Spec2Isabelle
  imports Complex_Main
begin

section \<open>JavaScript numbers\<close>

text \<open>
  A JavaScript \<^verbatim>\<open>number\<close> is modelled as an exact real extended with the IEEE special
  values \<^verbatim>\<open>Infinity\<close>, \<^verbatim>\<open>-Infinity\<close> and \<^verbatim>\<open>NaN\<close>. Finite arithmetic is exact
  (rounding is not modelled) and zero is unsigned, so \<^verbatim>\<open>x / 0\<close> is \<^verbatim>\<open>Infinity\<close> for
  positive \<^verbatim>\<open>x\<close>, \<^verbatim>\<open>-Infinity\<close> for negative \<^verbatim>\<open>x\<close> and \<^verbatim>\<open>NaN\<close> for \<^verbatim>\<open>0 / 0\<close>.
\<close>

datatype jsnum = Fin real | PInf | NInf | NaN

fun jneg :: "jsnum \<Rightarrow> jsnum" where
  "jneg (Fin x) = Fin (- x)"
| "jneg PInf = NInf"
| "jneg NInf = PInf"
| "jneg NaN = NaN"

fun jadd :: "jsnum \<Rightarrow> jsnum \<Rightarrow> jsnum" where
  "jadd (Fin x) (Fin y) = Fin (x + y)"
| "jadd NaN b = NaN"
| "jadd a NaN = NaN"
| "jadd PInf NInf = NaN"
| "jadd NInf PInf = NaN"
| "jadd PInf b = PInf"
| "jadd a PInf = PInf"
| "jadd NInf b = NInf"
| "jadd a NInf = NInf"

definition jsub :: "jsnum \<Rightarrow> jsnum \<Rightarrow> jsnum" where
  "jsub a b = jadd a (jneg b)"

text \<open>The sign of a number that is not \<^verbatim>\<open>NaN\<close>: \<open>-1\<close>, \<open>0\<close> or \<open>1\<close>.\<close>

fun jsign :: "jsnum \<Rightarrow> int" where
  "jsign (Fin x) = (if x < 0 then - 1 else if x = 0 then 0 else 1)"
| "jsign PInf = 1"
| "jsign NInf = - 1"
| "jsign NaN = 0"

fun jmul :: "jsnum \<Rightarrow> jsnum \<Rightarrow> jsnum" where
  "jmul (Fin x) (Fin y) = Fin (x * y)"
| "jmul NaN b = NaN"
| "jmul a NaN = NaN"
| "jmul a b =
     (if jsign a * jsign b = 0 then NaN
      else if jsign a * jsign b > 0 then PInf else NInf)"

fun jdiv :: "jsnum \<Rightarrow> jsnum \<Rightarrow> jsnum" where
  "jdiv (Fin x) (Fin y) =
     (if y \<noteq> 0 then Fin (x / y)
      else if x = 0 then NaN
      else if x > 0 then PInf else NInf)"
| "jdiv NaN b = NaN"
| "jdiv a NaN = NaN"
| "jdiv (Fin x) b = Fin 0"
| "jdiv a (Fin y) = (if jsign a * (if y < 0 then - 1 else 1) > 0 then PInf else NInf)"
| "jdiv a b = NaN"

text \<open>
  The remainder operator \<^verbatim>\<open>%\<close> truncates the quotient towards zero, so the result has
  the sign of the dividend; \<^verbatim>\<open>x % 0\<close> is \<^verbatim>\<open>NaN\<close>.
\<close>

definition rtrunc :: "real \<Rightarrow> int" where
  "rtrunc q = (if q < 0 then \<lceil>q\<rceil> else \<lfloor>q\<rfloor>)"

fun jrem :: "jsnum \<Rightarrow> jsnum \<Rightarrow> jsnum" where
  "jrem (Fin x) (Fin y) =
     (if y = 0 then NaN else Fin (x - y * of_int (rtrunc (x / y))))"
| "jrem NaN b = NaN"
| "jrem a NaN = NaN"
| "jrem (Fin x) b = Fin x"
| "jrem a b = NaN"

fun jlt :: "jsnum \<Rightarrow> jsnum \<Rightarrow> bool" where
  "jlt (Fin x) (Fin y) = (x < y)"
| "jlt NaN b = False"
| "jlt a NaN = False"
| "jlt a NInf = False"
| "jlt PInf b = False"
| "jlt a b = True"

definition jgt :: "jsnum \<Rightarrow> jsnum \<Rightarrow> bool" where
  "jgt a b = jlt b a"

fun isNaN :: "jsnum \<Rightarrow> bool" where
  "isNaN NaN = True"
| "isNaN a = False"

text \<open>\<^verbatim>\<open>Math.min\<close> and \<^verbatim>\<open>Math.max\<close> return \<^verbatim>\<open>NaN\<close> as soon as one argument is \<^verbatim>\<open>NaN\<close>.\<close>

definition jmin :: "jsnum \<Rightarrow> jsnum \<Rightarrow> jsnum" where
  "jmin a b = (if isNaN a \<or> isNaN b then NaN else if jlt b a then b else a)"

definition jmax :: "jsnum \<Rightarrow> jsnum \<Rightarrow> jsnum" where
  "jmax a b = (if isNaN a \<or> isNaN b then NaN else if jlt a b then b else a)"

fun jabs :: "jsnum \<Rightarrow> jsnum" where
  "jabs (Fin x) = Fin \<bar>x\<bar>"
| "jabs NaN = NaN"
| "jabs a = PInf"

fun jsin :: "jsnum \<Rightarrow> jsnum" where
  "jsin (Fin x) = Fin (sin x)"
| "jsin a = NaN"

text \<open>\<^verbatim>\<open>Math.pow\<close> for a natural exponent.\<close>

fun jpow :: "jsnum \<Rightarrow> nat \<Rightarrow> jsnum" where
  "jpow a 0 = Fin 1"
| "jpow (Fin x) n = Fin (x ^ n)"
| "jpow PInf n = PInf"
| "jpow NInf n = (if odd n then NInf else PInf)"
| "jpow NaN n = NaN"

text \<open>Truthiness of a number: \<^verbatim>\<open>0\<close> and \<^verbatim>\<open>NaN\<close> are falsy.\<close>

fun truthy :: "jsnum \<Rightarrow> bool" where
  "truthy (Fin x) = (x \<noteq> 0)"
| "truthy NaN = False"
| "truthy a = True"

section \<open>Media Synchronizer: \<^verbatim>\<open>seekVideo\<close>\<close>

text \<open>The part of an \<^verbatim>\<open>HTMLVideoElement\<close> that the render reads and writes.\<close>

record video =
  currentTime :: jsnum
  duration :: jsnum
  seeks :: "jsnum list"
  paused :: bool
  src :: string
  attached :: bool

text \<open>\<^verbatim>\<open>let effectiveEndTime = endTime || video.duration\<close>, then the fallback of 60 seconds.\<close>

definition effectiveEndTime :: "jsnum \<Rightarrow> jsnum \<Rightarrow> jsnum option \<Rightarrow> jsnum" where
  "effectiveEndTime dur startTime endTime =
     (let e = (case endTime of
                 None \<Rightarrow> dur
               | Some x \<Rightarrow> if truthy x then x else dur)
      in if e = PInf \<or> isNaN e then jadd startTime (Fin 60) else e)"

definition targetTime :: "jsnum \<Rightarrow> jsnum \<Rightarrow> jsnum option \<Rightarrow> bool option \<Rightarrow> jsnum \<Rightarrow> jsnum" where
  "targetTime dur startTime endTime loop elapsed =
     (let e = effectiveEndTime dur startTime endTime;
          segmentDuration = jsub e startTime
      in if jgt segmentDuration (Fin 0) then
           (if loop \<noteq> Some False then jadd startTime (jrem elapsed segmentDuration)
            else jmin (jadd startTime elapsed) e)
         else startTime)"

text \<open>
  The sums and differences above are exact, where the machine rounds them: the rounded
  sum \<^verbatim>\<open>startTime + (elapsed % segmentDuration)\<close> can be the effective end itself, although
  the remainder is below the segment duration. Bounds on the target are therefore stated
  with \<open>\<le>\<close>, which rounding preserves, and strictness only for the remainder, which
  \<^verbatim>\<open>%\<close> computes without rounding.
\<close>

text \<open>
  \<^verbatim>\<open>seekVideo\<close>: when the element is already within 0.01 s of the target the promise
  resolves at once; otherwise \<^verbatim>\<open>currentTime\<close> is assigned and the promise resolves on
  \<^verbatim>\<open>seeked\<close>. The element is taken to land on the assigned position; \<open>seeks\<close> logs
  every assignment.
\<close>

definition seekVideo :: "video \<Rightarrow> jsnum \<Rightarrow> jsnum option \<Rightarrow> bool option \<Rightarrow> jsnum \<Rightarrow> video" where
  "seekVideo v startTime endTime loop elapsed =
     (let tt = targetTime (duration v) startTime endTime loop elapsed
      in if jlt (jabs (jsub (currentTime v) tt)) (Fin (1 / 100)) then v
         else v\<lparr>currentTime := tt, seeks := seeks v @ [tt]\<rparr>)"

section \<open>Data model\<close>

record TimingConfig =
  t1 :: real
  t2 :: real
  t3 :: real
  t4 :: real
  tHold :: real
  t5 :: real
  t6 :: real
  t7 :: real

datatype mediaType = ImageType | VideoType

record MediaSlotData =
  url :: "string option"
  mtype :: mediaType
  xOffset :: real
  startTime :: real
  endTime :: "real option"
  loop :: "bool option"

datatype alignment = AlignLeft | AlignCenter | AlignRight

record TypographyConfig =
  content :: string
  fontSize :: real
  color :: string
  align :: alignment
  fontFamily :: string

datatype fadeColour = Black | White

record AnimationConfig =
  bounceScale :: real
  fadeColor :: fadeColour

datatype quality = Standard | High

record AppState =
  slotA :: MediaSlotData
  slotB :: MediaSlotData
  slotC :: MediaSlotData
  slotD :: MediaSlotData
  timing :: TimingConfig
  typography :: TypographyConfig
  animation :: AnimationConfig
  quality :: quality

text \<open>
  \<^verbatim>\<open>totalDuration\<close>: \<^verbatim>\<open>Object.values(state.timing).reduce((acc, val) => acc + val, 0)\<close>.
\<close>

definition timingValues :: "TimingConfig \<Rightarrow> real list" where
  "timingValues tm = [t1 tm, t2 tm, t3 tm, t4 tm, tHold tm, t5 tm, t6 tm, t7 tm]"

definition totalDuration :: "TimingConfig \<Rightarrow> real" where
  "totalDuration tm = foldl (\<lambda>acc val. acc + val) 0 (timingValues tm)"

text \<open>A loaded media element: an image with its size, or a video with its frame size.\<close>

datatype mediaEl = ImageEl real real | VideoEl video real real

fun getMediaDims :: "mediaEl \<Rightarrow> real \<times> real" where
  "getMediaDims (ImageEl iw ih) = (iw, ih)"
| "getMediaDims (VideoEl v vw vh) = (vw, vh)"

record mediaSet =
  elA :: mediaEl
  elB :: mediaEl
  elC :: mediaEl
  elD :: mediaEl

section \<open>Frame Compositor\<close>

text \<open>
  A frame is the list of canvas operations in the order they are issued. Every operation
  carries the alpha in force when it is issued (\<^verbatim>\<open>globalAlpha\<close>, or the alpha of an
  \<^verbatim>\<open>rgba\<close> fill style); a picture carries its clip rectangle.
\<close>

datatype slotId = IdA | IdB | IdC | IdD

type_synonym rect = "jsnum \<times> jsnum \<times> jsnum \<times> jsnum"

datatype drawop =
    FillRect string jsnum rect
  | DrawImage slotId jsnum "rect option" rect
  | FillText string jsnum string real string alignment jsnum jsnum

definition introOpacity :: "TimingConfig \<Rightarrow> real \<Rightarrow> jsnum" where
  "introOpacity tm t =
     (if t < t1 tm then Fin 1
      else jmax (Fin 0) (jsub (Fin 1) (jdiv (Fin (t - t1 tm)) (Fin (t2 tm)))))"

definition kenBurns :: "TimingConfig \<Rightarrow> real \<Rightarrow> jsnum" where
  "kenBurns tm t = jadd (Fin 1) (jmul (jdiv (Fin t) (Fin (t1 tm + t2 tm))) (Fin (5 / 100)))"

definition drawIntro :: "TimingConfig \<Rightarrow> real \<times> real \<Rightarrow> real \<Rightarrow> drawop" where
  "drawIntro tm dimsA t =
     (let mediaAspect = jdiv (Fin (fst dimsA)) (Fin (snd dimsA));
          targetAspect = Fin (1920 / 1080);
          drawH1 = jmul (Fin 1080) (kenBurns tm t);
          drawW2 = jmul (Fin 1920) (kenBurns tm t);
          (drawW, drawH) =
            (if jgt mediaAspect targetAspect then (jmul drawH1 mediaAspect, drawH1)
             else (drawW2, jdiv drawW2 mediaAspect))
      in DrawImage IdA (introOpacity tm t) None
           (jdiv (jsub (Fin 1920) drawW) (Fin 2), jdiv (jsub (Fin 1080) drawH) (Fin 2),
            drawW, drawH))"

definition panelWidth :: real where
  "panelWidth = 1920 / 3"

definition drawPanel ::
  "slotId \<Rightarrow> real \<Rightarrow> real \<Rightarrow> real \<Rightarrow> jsnum \<Rightarrow> real \<times> real \<Rightarrow> drawop" where
  "drawPanel media index xOff yOff scale dims =
     (let mediaAspect = jdiv (Fin (fst dims)) (Fin (snd dims));
          panelAspect = Fin (panelWidth / 1080);
          drawH1 = jmul (Fin 1080) scale;
          drawW2 = jmul (Fin panelWidth) scale;
          (drawW, drawH) =
            (if jgt mediaAspect panelAspect then (jmul drawH1 mediaAspect, drawH1)
             else (drawW2, jdiv drawW2 mediaAspect));
          overflowX = jsub drawW (Fin panelWidth);
          imgTargetX = jsub (Fin (index * panelWidth)) (jmul overflowX (Fin (xOff / 100)));
          imgTargetY = jadd (jdiv (jsub (Fin 1080) drawH) (Fin 2)) (Fin yOff)
      in DrawImage media (Fin 1)
           (Some (Fin (index * panelWidth), Fin 0, Fin panelWidth, Fin 1080))
           (imgTargetX, imgTargetY, drawW, drawH))"

definition entryProgress :: "TimingConfig \<Rightarrow> real \<Rightarrow> jsnum" where
  "entryProgress tm ct = jmin (jdiv (Fin ct) (Fin (t3 tm))) (Fin 1)"

definition getBounce :: "TimingConfig \<Rightarrow> AnimationConfig \<Rightarrow> real \<Rightarrow> real \<Rightarrow> jsnum" where
  "getBounce tm an ct delay =
     (let bt = ct - t3 tm - delay;
          bDur = t4 tm / 3
      in if bt < 0 \<or> bt > bDur then Fin 1
         else jadd (Fin 1)
                (jmul (jsin (jmul (jdiv (Fin bt) (Fin bDur)) (Fin pi)))
                      (Fin (bounceScale an - 1))))"

definition ease :: "TimingConfig \<Rightarrow> real \<Rightarrow> jsnum" where
  "ease tm ct = jsub (Fin 1) (jpow (jsub (Fin 1) (entryProgress tm ct)) 3)"

text \<open>The scale handed to \<^verbatim>\<open>drawPanel\<close> for each of the three panels.\<close>

definition panelScales :: "TimingConfig \<Rightarrow> AnimationConfig \<Rightarrow> real \<Rightarrow> jsnum \<times> jsnum \<times> jsnum" where
  "panelScales tm an ct =
     (if ct < t3 tm then (Fin 1, Fin 1, Fin 1)
      else (getBounce tm an ct 0,
            getBounce tm an ct (t4 tm / 3),
            getBounce tm an ct ((t4 tm / 3) * 2)))"

definition drawPanels ::
  "AppState \<Rightarrow> (real \<times> real) \<times> (real \<times> real) \<times> (real \<times> real) \<Rightarrow> real \<Rightarrow> drawop list" where
  "drawPanels st dims ct =
     (let (dimsB, dimsC, dimsD) = dims;
          (sB, sC, sD) = panelScales (timing st) (animation st) ct
      in [drawPanel IdB 0 (xOffset (slotB st)) 0 sB dimsB,
          drawPanel IdC 1 (xOffset (slotC st)) 0 sC dimsC,
          drawPanel IdD 2 (xOffset (slotD st)) 0 sD dimsD])"

definition entryMasks :: "TimingConfig \<Rightarrow> real \<Rightarrow> drawop list" where
  "entryMasks tm ct =
     (if ct < t3 tm then
        (let rest = jsub (Fin 1) (ease tm ct);
             offset = jmul (Fin panelWidth) rest
         in [FillRect ''#000000'' (Fin 1) (Fin 0, Fin 0, offset, Fin 1080),
             FillRect ''#000000'' (Fin 1)
               (Fin panelWidth, Fin 0, Fin panelWidth, jmul (Fin 1080) rest),
             FillRect ''#000000'' (Fin 1) (jsub (Fin 1920) offset, Fin 0, offset, Fin 1080)])
      else [])"

fun splitLines :: "string \<Rightarrow> string list" where
  "splitLines [] = [[]]"
| "splitLines (c # cs) =
     (if c = CHR 0x0A then [] # splitLines cs
      else (case splitLines cs of [] \<Rightarrow> [[c]] | l # ls \<Rightarrow> (c # l) # ls))"

definition overlayOpacity :: "TimingConfig \<Rightarrow> real \<Rightarrow> jsnum" where
  "overlayOpacity tm ot = jmin (jdiv (Fin ot) (Fin (t5 tm))) (Fin 1)"

definition drawOverlay :: "TimingConfig \<Rightarrow> TypographyConfig \<Rightarrow> real \<Rightarrow> drawop list" where
  "drawOverlay tm ty ct =
     (let ot = ct - t3 tm - t4 tm - tHold tm
      in if ot > 0 then
           (let oo = overlayOpacity tm ot;
                ls = splitLines (content ty);
                lineHeight = fontSize ty * (3 / 2);
                totalTextHeight = real (length ls) * lineHeight;
                startY = 540 - totalTextHeight / 2 + lineHeight / 2;
                x = (case align ty of AlignCenter \<Rightarrow> 960 | AlignLeft \<Rightarrow> 200 | AlignRight \<Rightarrow> 1720)
            in FillRect ''#000000'' (jmul oo (Fin (4 / 10))) (Fin 0, Fin 0, Fin 1920, Fin 1080)
               # map (\<lambda>(i, line).
                        FillText line oo (color ty) (fontSize ty * (3 / 2)) (fontFamily ty)
                          (align ty) (Fin x) (Fin (startY + real i * lineHeight)))
                     (enumerate 0 ls))
         else [])"

definition fadeOpacity :: "TimingConfig \<Rightarrow> real \<Rightarrow> jsnum" where
  "fadeOpacity tm t =
     jmin (jdiv (Fin (t - (totalDuration tm - t7 tm))) (Fin (t7 tm))) (Fin 1)"

definition finalFade :: "TimingConfig \<Rightarrow> AnimationConfig \<Rightarrow> real \<Rightarrow> drawop list" where
  "finalFade tm an t =
     (let fadeOutStartTime = totalDuration tm - t7 tm
      in if t > fadeOutStartTime then
           [FillRect (if fadeColor an = White then ''#FFFFFF'' else ''#000000'')
              (fadeOpacity tm t) (Fin 0, Fin 0, Fin 1920, Fin 1080)]
         else [])"

text \<open>Everything the frame at time \<open>t\<close> draws below the final fade.\<close>

definition drawScene ::
  "AppState \<Rightarrow> (real \<times> real) \<times> (real \<times> real) \<times> (real \<times> real) \<times> (real \<times> real) \<Rightarrow> real \<Rightarrow> drawop list" where
  "drawScene st dims t =
     (let tm = timing st;
          (dimsA, dimsBCD) = dims
      in FillRect ''#000000'' (Fin 1) (Fin 0, Fin 0, Fin 1920, Fin 1080)
         # (if t < t1 tm + t2 tm then [drawIntro tm dimsA t] else [])
         @ (if t \<ge> t1 tm + t2 tm then
              (let ct = t - (t1 tm + t2 tm)
               in drawPanels st dimsBCD ct @ entryMasks tm ct @ drawOverlay tm (typography st) ct)
            else []))"

definition renderFrame ::
  "AppState \<Rightarrow> (real \<times> real) \<times> (real \<times> real) \<times> (real \<times> real) \<times> (real \<times> real) \<Rightarrow> real \<Rightarrow> drawop list" where
  "renderFrame st dims t = drawScene st dims t @ finalFade (timing st) (animation st) t"

section \<open>Render Loop: \<^verbatim>\<open>startRecording\<close>\<close>

datatype renderStatus = Idle | Rendering | Completed | Error

text \<open>The component state that \<^verbatim>\<open>startRecording\<close> writes.\<close>

record appView =
  renderStatus :: renderStatus
  renderProgress :: jsnum
  renderError :: "string option"
  recordedUrl :: "string option"
  isPlaying :: bool
  lastRecordedQuality :: "quality option"

text \<open>
  What the host decides: whether the canvas, the encoder and the 2D context exist, the
  outcome of loading the four media, the value of \<^verbatim>\<open>stopRequestedRef.current\<close> read by
  the check of each iteration, the iterations whose encoding throws, the object URL
  handed out for the finished file, and the two translated messages.
\<close>

record env =
  hasCanvas :: bool
  hasVideoEncoder :: bool
  loadedMedia :: "mediaSet option"
  hasContext :: bool
  stopRequested :: "nat \<Rightarrow> bool"
  encodeThrows :: "nat \<Rightarrow> bool"
  objectUrl :: string
  canvasError :: string
  browserWarning :: string

datatype encoderState = Configured | Closed

datatype outcome = Finished | Stopped | Faulted

record loopState =
  media :: mediaSet
  progressLog :: "jsnum list"
  encoded :: "(real \<times> bool \<times> drawop list) list"

definition FPS :: "AppState \<Rightarrow> real" where
  "FPS st = (if quality st = High then 60 else 30)"

definition totalFrames :: "AppState \<Rightarrow> int" where
  "totalFrames st = \<lceil>totalDuration (timing st) * FPS st\<rceil>"

text \<open>One call of \<^verbatim>\<open>seekVideo\<close> on the element of a slot, made only for a video slot.\<close>

fun seekSlot :: "mediaEl \<Rightarrow> MediaSlotData \<Rightarrow> real \<Rightarrow> mediaEl" where
  "seekSlot (VideoEl v vw vh) slot elapsed =
     (if mtype slot = VideoType then
        VideoEl (seekVideo v (Fin (startTime slot)) (map_option Fin (endTime slot)) (loop slot)
                   (Fin elapsed)) vw vh
      else VideoEl v vw vh)"
| "seekSlot (ImageEl iw ih) slot elapsed = ImageEl iw ih"

definition syncFrame :: "AppState \<Rightarrow> real \<Rightarrow> mediaSet \<Rightarrow> mediaSet" where
  "syncFrame st t m =
     (let tm = timing st;
          m1 = (if t < t1 tm + t2 tm then m\<lparr>elA := seekSlot (elA m) (slotA st) t\<rparr> else m)
      in if t \<ge> t1 tm then
           (let ct = t - (t1 tm + t2 tm)
            in m1\<lparr>elB := seekSlot (elB m1) (slotB st) ct,
                  elC := seekSlot (elC m1) (slotC st) ct,
                  elD := seekSlot (elD m1) (slotD st) ct\<rparr>)
         else m1)"

definition progressOf :: "nat \<Rightarrow> int \<Rightarrow> jsnum" where
  "progressOf frame tf = jmul (jdiv (Fin (real frame)) (Fin (real_of_int tf))) (Fin 100)"

text \<open>The first half of an iteration: the throttled progress report and the seeks.\<close>

definition frameSync :: "AppState \<Rightarrow> int \<Rightarrow> nat \<Rightarrow> loopState \<Rightarrow> loopState" where
  "frameSync st tf frame ls =
     (let t = real frame / FPS st;
          ls1 = (if frame mod 5 = 0 \<or> int frame = tf
                 then ls\<lparr>progressLog := progressLog ls @ [progressOf frame tf]\<rparr> else ls)
      in ls1\<lparr>media := syncFrame st t (media ls1)\<rparr>)"

definition mediaDims ::
  "mediaSet \<Rightarrow> (real \<times> real) \<times> (real \<times> real) \<times> (real \<times> real) \<times> (real \<times> real)" where
  "mediaDims m = (getMediaDims (elA m), getMediaDims (elB m), getMediaDims (elC m), getMediaDims (elD m))"

text \<open>The second half: the frame is painted, stamped and handed to the encoder.\<close>

definition frameEncode ::
  "AppState \<Rightarrow> (real \<times> real) \<times> (real \<times> real) \<times> (real \<times> real) \<times> (real \<times> real) \<Rightarrow> nat \<Rightarrow> loopState \<Rightarrow> loopState" where
  "frameEncode st dims frame ls =
     (let t = real frame / FPS st
      in ls\<lparr>encoded := encoded ls @
              [(real frame * 1000000 / FPS st, frame mod 60 = 0, renderFrame st dims t)]\<rparr>)"

function frameLoop ::
  "env \<Rightarrow> AppState \<Rightarrow> (real \<times> real) \<times> (real \<times> real) \<times> (real \<times> real) \<times> (real \<times> real) \<Rightarrow> int \<Rightarrow> nat \<Rightarrow> loopState
     \<Rightarrow> outcome \<times> loopState" where
  "frameLoop ev st dims tf frame ls =
     (if int frame \<le> tf then
        (if stopRequested ev frame then (Stopped, ls)
         else if encodeThrows ev frame then (Faulted, frameSync st tf frame ls)
         else frameLoop ev st dims tf (Suc frame)
                (frameEncode st dims frame (frameSync st tf frame ls)))
      else (Finished, ls))"
  by pat_completeness auto
termination
  by (relation "measure (\<lambda>(ev, st, dims, tf, frame, ls). nat (tf + 1 - int frame))") auto

declare frameLoop.simps [simp del]

fun releaseEl :: "mediaEl \<Rightarrow> mediaEl" where
  "releaseEl (VideoEl v vw vh) = VideoEl (v\<lparr>paused := True, src := [], attached := False\<rparr>) vw vh"
| "releaseEl (ImageEl iw ih) = ImageEl iw ih"

definition releaseMedia :: "mediaSet \<Rightarrow> mediaSet" where
  "releaseMedia m =
     \<lparr>elA = releaseEl (elA m), elB = releaseEl (elB m),
      elC = releaseEl (elC m), elD = releaseEl (elD m)\<rparr>"

text \<open>
  What a call of \<^verbatim>\<open>startRecording\<close> leaves behind: the component state, the media
  elements after the \<^verbatim>\<open>finally\<close> block, the encoder, and the finalized buffer (the
  encoded frames) when one was produced.
\<close>

record renderResult =
  view :: appView
  finalMedia :: "mediaSet option"
  encoder :: "encoderState option"
  outputBuffer :: "(real \<times> bool \<times> drawop list) list option"

definition lastProgress :: "appView \<Rightarrow> loopState \<Rightarrow> appView" where
  "lastProgress vw ls =
     (if progressLog ls = [] then vw else vw\<lparr>renderProgress := last (progressLog ls)\<rparr>)"

definition recordingFailed :: "appView \<Rightarrow> appView" where
  "recordingFailed vw =
     vw\<lparr>renderError := Some ''Recording failed. Check your assets and try again.'',
        renderStatus := Error, isPlaying := False\<rparr>"

definition startRecording :: "env \<Rightarrow> AppState \<Rightarrow> appView \<Rightarrow> renderResult" where
  "startRecording ev st vw =
     (if \<not> hasCanvas ev then
        \<lparr>view = vw\<lparr>renderError := Some (canvasError ev), renderStatus := Error\<rparr>,
         finalMedia = None, encoder = None, outputBuffer = None\<rparr>
      else if \<not> hasVideoEncoder ev then
        \<lparr>view = vw\<lparr>renderError := Some (browserWarning ev), renderStatus := Error\<rparr>,
         finalMedia = None, encoder = None, outputBuffer = None\<rparr>
      else
        (let vw1 = vw\<lparr>renderStatus := Rendering, renderProgress := Fin 0, renderError := None,
                       recordedUrl := None, isPlaying := True,
                       lastRecordedQuality := Some (quality st)\<rparr>
         in case loadedMedia ev of
              None \<Rightarrow>
                \<lparr>view = recordingFailed vw1, finalMedia = None, encoder = None,
                 outputBuffer = None\<rparr>
            | Some m \<Rightarrow>
                if \<not> hasContext ev then
                  \<lparr>view = recordingFailed vw1, finalMedia = Some (releaseMedia m),
                   encoder = None, outputBuffer = None\<rparr>
                else
                  (case frameLoop ev st (mediaDims m) (totalFrames st) 0
                          \<lparr>media = m, progressLog = [], encoded = []\<rparr> of
                     (Finished, ls) \<Rightarrow>
                       \<lparr>view = (lastProgress vw1 ls)\<lparr>recordedUrl := Some (objectUrl ev),
                                 renderStatus := Completed, isPlaying := False\<rparr>,
                        finalMedia = Some (releaseMedia (media ls)), encoder = Some Closed,
                        outputBuffer = Some (encoded ls)\<rparr>
                   | (Stopped, ls) \<Rightarrow>
                       \<lparr>view = (lastProgress vw1 ls)\<lparr>renderStatus := Idle, isPlaying := False\<rparr>,
                        finalMedia = Some (releaseMedia (media ls)), encoder = Some Closed,
                        outputBuffer = None\<rparr>
                   | (Faulted, ls) \<Rightarrow>
                       \<lparr>view = recordingFailed (lastProgress vw1 ls),
                        finalMedia = Some (releaseMedia (media ls)), encoder = Some Closed,
                        outputBuffer = None\<rparr>)))"

section \<open>A sample configuration\<close>

text \<open>
  The timing of the specification's scenario, a project whose panel B is a video trimmed
  to the window from 5 s to 10 s, and the four loaded elements.
\<close>

definition demoTiming :: TimingConfig where
  "demoTiming =
     \<lparr>t1 = 2, t2 = 1 / 2, t3 = 1 / 2, t4 = 3 / 2, tHold = 1, t5 = 1, t6 = 5 / 2, t7 = 0\<rparr>"

definition demoImageSlot :: MediaSlotData where
  "demoImageSlot =
     \<lparr>url = Some ''a.png'', mtype = ImageType, xOffset = 50, startTime = 0,
      endTime = Some 0, loop = None\<rparr>"

definition demoVideoSlot :: MediaSlotData where
  "demoVideoSlot =
     \<lparr>url = Some ''b.webm'', mtype = VideoType, xOffset = 20, startTime = 5,
      endTime = Some 10, loop = Some True\<rparr>"

definition demoState :: AppState where
  "demoState =
     \<lparr>slotA = demoImageSlot, slotB = demoVideoSlot, slotC = demoImageSlot,
      slotD = demoImageSlot, timing = demoTiming,
      typography = \<lparr>content = ''MOMENTS'', fontSize = 64, color = ''#FFFFFF'',
                     align = AlignCenter, fontFamily = ''Inter''\<rparr>,
      animation = \<lparr>bounceScale = 108 / 100, fadeColor = Black\<rparr>,
      quality = Standard\<rparr>"

definition demoVideo :: video where
  "demoVideo =
     \<lparr>currentTime = Fin 0, duration = Fin 20, seeks = [], paused = False,
      src = ''b.webm'', attached = True\<rparr>"

definition demoMedia :: mediaSet where
  "demoMedia =
     \<lparr>elA = ImageEl 1920 1080, elB = VideoEl demoVideo 1920 1080,
      elC = ImageEl 1920 1080, elD = ImageEl 1920 1080\<rparr>"

text \<open>The playback position of an element, when it is a video.\<close>

fun videoTime :: "mediaEl \<Rightarrow> jsnum option" where
  "videoTime (VideoEl v vw vh) = Some (currentTime v)"
| "videoTime (ImageEl iw ih) = None"

definition demoEnv :: env where
  "demoEnv =
     \<lparr>hasCanvas = True, hasVideoEncoder = True, loadedMedia = Some demoMedia,
      hasContext = True, stopRequested = (\<lambda>k. False), encodeThrows = (\<lambda>k. False),
      objectUrl = ''blob:out'', canvasError = ''Canvas not found'',
      browserWarning = ''WebCodecs is not supported''\<rparr>"

definition demoView :: appView where
  "demoView =
     \<lparr>renderStatus = Completed, renderProgress = Fin 100, renderError = None,
      recordedUrl = Some ''blob:old'', isPlaying = False, lastRecordedQuality = Some High\<rparr>"

definition zeroTiming :: TimingConfig where
  "zeroTiming = \<lparr>t1 = 0, t2 = 0, t3 = 0, t4 = 0, tHold = 0, t5 = 0, t6 = 0, t7 = 0\<rparr>"

section \<open>Notions used by the properties\<close>

text \<open>A video element is released once it is paused, has no source and is detached.\<close>

fun released :: "mediaEl \<Rightarrow> bool" where
  "released (VideoEl v vw vh) = (paused v \<and> src v = [] \<and> \<not> attached v)"
| "released (ImageEl iw ih) = True"

definition allReleased :: "mediaSet \<Rightarrow> bool" where
  "allReleased m =
     (released (elA m) \<and> released (elB m) \<and> released (elC m) \<and> released (elD m))"

text \<open>
  The slot and the element of each of the four positions, and the elapsed time with
  which the render loop seeks a position at frame time \<open>t\<close>, if it does: slot a with
  \<open>t\<close> while \<open>t < t1 + t2\<close>, the panels with \<open>t - (t1 + t2)\<close> from \<open>t \<ge> t1\<close> on.
\<close>

fun slotOf :: "AppState \<Rightarrow> slotId \<Rightarrow> MediaSlotData" where
  "slotOf st IdA = slotA st"
| "slotOf st IdB = slotB st"
| "slotOf st IdC = slotC st"
| "slotOf st IdD = slotD st"

fun elOf :: "mediaSet \<Rightarrow> slotId \<Rightarrow> mediaEl" where
  "elOf m IdA = elA m"
| "elOf m IdB = elB m"
| "elOf m IdC = elC m"
| "elOf m IdD = elD m"

fun elapsedFor :: "TimingConfig \<Rightarrow> slotId \<Rightarrow> real \<Rightarrow> real option" where
  "elapsedFor tm IdA t = (if t < t1 tm + t2 tm then Some t else None)"
| "elapsedFor tm i t = (if t1 tm \<le> t then Some (t - (t1 tm + t2 tm)) else None)"

text \<open>The effective end of a slot played from a given element.\<close>

definition slotEnd :: "video \<Rightarrow> MediaSlotData \<Rightarrow> jsnum" where
  "slotEnd v slot =
     effectiveEndTime (duration v) (Fin (startTime slot)) (map_option Fin (endTime slot))"

text \<open>The targets assigned to an element between two of its states.\<close>

fun newSeeks :: "mediaEl \<Rightarrow> mediaEl \<Rightarrow> jsnum list" where
  "newSeeks (VideoEl v vw vh) (VideoEl v' vw' vh') = drop (length (seeks v)) (seeks v')"
| "newSeeks a b = []"

text \<open>
  \<open>sought a b\<close>: \<open>b\<close> is the element \<open>a\<close> after seeks only (same kind, size, duration,
  source and attachment). \<open>releasedOf a b\<close>: \<open>b\<close> is the element \<open>a\<close>, and if it is a
  video it is now paused, without source and detached.
\<close>

fun sought :: "mediaEl \<Rightarrow> mediaEl \<Rightarrow> bool" where
  "sought (VideoEl v vw vh) (VideoEl v' vw' vh') =
     (vw' = vw \<and> vh' = vh \<and> duration v' = duration v \<and> paused v' = paused v
      \<and> src v' = src v \<and> attached v' = attached v)"
| "sought (ImageEl iw ih) (ImageEl iw' ih') = (iw' = iw \<and> ih' = ih)"
| "sought a b = False"

fun releasedOf :: "mediaEl \<Rightarrow> mediaEl \<Rightarrow> bool" where
  "releasedOf (VideoEl v vw vh) (VideoEl v' vw' vh') =
     (vw' = vw \<and> vh' = vh \<and> duration v' = duration v
      \<and> paused v' \<and> src v' = [] \<and> \<not> attached v')"
| "releasedOf (ImageEl iw ih) (ImageEl iw' ih') = (iw' = iw \<and> ih' = ih)"
| "releasedOf a b = False"

definition soughtSet :: "mediaSet \<Rightarrow> mediaSet \<Rightarrow> bool" where
  "soughtSet m m' =
     (sought (elA m) (elA m') \<and> sought (elB m) (elB m')
      \<and> sought (elC m) (elC m') \<and> sought (elD m) (elD m'))"

text \<open>
  The progress values that the iterations from \<open>i\<close> up to, not including, \<open>n\<close> report,
  and the percentage \<^verbatim>\<open>frame / totalFrames * 100\<close> as a real number.
\<close>

definition reported :: "int \<Rightarrow> nat \<Rightarrow> nat \<Rightarrow> jsnum list" where
  "reported tf i n =
     map (\<lambda>f. progressOf f tf) (filter (\<lambda>f. f mod 5 = 0 \<or> int f = tf) [i..<n])"

definition pct :: "int \<Rightarrow> nat \<Rightarrow> real" where
  "pct tf f = real f / real_of_int tf * 100"

text \<open>
  The sine bump as the specification describes it: amplitude \<^verbatim>\<open>bounceScale - 1\<close> over
  the window of length \<^verbatim>\<open>t4 / 3\<close> that begins at \<open>start\<close>, and exactly 1 outside it.
\<close>

definition bump :: "TimingConfig \<Rightarrow> AnimationConfig \<Rightarrow> real \<Rightarrow> real \<Rightarrow> real" where
  "bump tm an start ct =
     (if start \<le> ct \<and> ct \<le> start + t4 tm / 3
      then 1 + sin ((ct - start) / (t4 tm / 3) * pi) * (bounceScale an - 1)
      else 1)"

text \<open>The mathematical (floored) modulus on reals, as the specification writes it.\<close>

definition spec_mod :: "real \<Rightarrow> real \<Rightarrow> real" where
  "spec_mod x y = x - y * of_int \<lfloor>x / y\<rfloor>"

section \<open>Properties of the synchronizer\<close>

lemma spec_mod_range:
  assumes "0 < y"
  shows "0 \<le> spec_mod x y \<and> spec_mod x y < y"
proof -
  have f1: "of_int \<lfloor>x / y\<rfloor> \<le> x / y" by simp
  have f2: "x / y < of_int \<lfloor>x / y\<rfloor> + 1" by linarith
  have "of_int \<lfloor>x / y\<rfloor> * y \<le> x"
    using f1 assms pos_le_divide_eq [of y "of_int \<lfloor>x / y\<rfloor>" x] by blast
  moreover have "x < (of_int \<lfloor>x / y\<rfloor> + 1) * y"
    using f2 assms pos_divide_less_eq [of y x "of_int \<lfloor>x / y\<rfloor> + 1"] by blast
  ultimately show ?thesis
    by (simp add: spec_mod_def algebra_simps)
qed

lemma jrem_nonneg:
  assumes "0 \<le> x" and "0 < y"
  shows "jrem (Fin x) (Fin y) = Fin (spec_mod x y)"
proof -
  have "0 \<le> x / y" using assms by simp
  then have "rtrunc (x / y) = \<lfloor>x / y\<rfloor>" by (simp add: rtrunc_def)
  then show ?thesis using assms by (simp add: spec_mod_def)
qed

lemma jrem_neg:
  assumes "x < 0" and "0 < y"
  shows "jrem (Fin x) (Fin y) = Fin (- spec_mod (- x) y)"
proof -
  have "x / y < 0" using assms by (simp add: divide_less_0_iff)
  then have "rtrunc (x / y) = \<lceil>x / y\<rceil>" by (simp add: rtrunc_def)
  also have "\<dots> = - \<lfloor>(- x) / y\<rfloor>" by (simp add: ceiling_def)
  finally show ?thesis using assms by (simp add: spec_mod_def)
qed

lemma effectiveEndTime_set:
  "e \<noteq> 0 \<Longrightarrow> effectiveEndTime dur st (Some (Fin e)) = Fin e"
  by (simp add: effectiveEndTime_def)

lemma targetTime_window:
  assumes "effectiveEndTime dur (Fin s) endT = Fin e" and "s < e"
  shows "targetTime dur (Fin s) endT lp (Fin el) =
           (if lp \<noteq> Some False then jadd (Fin s) (jrem (Fin el) (Fin (e - s)))
            else Fin (min (s + el) e))"
  unfolding targetTime_def Let_def assms(1) using assms(2)
  by (simp add: jsub_def jgt_def jmin_def min_def del: jrem.simps)

lemma targetTime_guard:
  assumes "\<not> jgt (jsub (effectiveEndTime dur st endT) st) (Fin 0)"
  shows "targetTime dur st endT lp el = st"
  using assms by (simp add: targetTime_def Let_def)

lemma effectiveEndTime_cases:
  "(\<exists>e. effectiveEndTime dur (Fin s) endT = Fin e) \<or> effectiveEndTime dur (Fin s) endT = NInf"
proof (cases "effectiveEndTime dur (Fin s) endT")
  case PInf
  then show ?thesis
    by (simp add: effectiveEndTime_def Let_def split: if_splits)
next
  case NaN
  then show ?thesis
    by (simp add: effectiveEndTime_def Let_def split: if_splits)
qed simp_all

lemma targetTime_finite: "\<exists>x. targetTime dur (Fin s) endT lp (Fin el) = Fin x"
proof -
  consider (fin) e where "effectiveEndTime dur (Fin s) endT = Fin e"
    | (ninf) "effectiveEndTime dur (Fin s) endT = NInf"
    using effectiveEndTime_cases by blast
  then show ?thesis
  proof cases
    case fin
    show ?thesis
    proof (cases "s < e")
      case True
      then show ?thesis
        by (simp add: targetTime_window [OF fin True])
    next
      case False
      then have "\<not> jgt (jsub (effectiveEndTime dur (Fin s) endT) (Fin s)) (Fin 0)"
        by (simp add: fin jsub_def jgt_def)
      then show ?thesis by (simp add: targetTime_guard)
    qed
  next
    case ninf
    then have "\<not> jgt (jsub (effectiveEndTime dur (Fin s) endT) (Fin s)) (Fin 0)"
      by (simp add: jsub_def jgt_def)
    then show ?thesis by (simp add: targetTime_guard)
  qed
qed

subsection \<open>The target formula\<close>

text \<open>
  C1 (amended). For a slot whose effective trim window is not empty (the effective end,
  which is \<^verbatim>\<open>endTime\<close> when it is set and not zero, lies after \<^verbatim>\<open>startTime\<close>), the
  target is \<^verbatim>\<open>startTime + (elapsed % segmentDuration)\<close> when the slot loops, with the
  remainder operator of JavaScript, which agrees with the mathematical modulus for a
  non-negative elapsed time, and \<^verbatim>\<open>min(startTime + elapsed, end)\<close> when it does not loop.
  For \<^verbatim>\<open>startTime = 5\<close>, \<^verbatim>\<open>endTime = 10\<close>, a looping slot and \<^verbatim>\<open>elapsed = 7\<close>
  the target is 7.
\<close>

theorem targetTime_formula:
  assumes "effectiveEndTime dur (Fin s) endT = Fin e" and "s < e"
  shows "(lp \<noteq> Some False \<longrightarrow>
            targetTime dur (Fin s) endT lp (Fin el) = jadd (Fin s) (jrem (Fin el) (Fin (e - s))))
       \<and> (lp \<noteq> Some False \<longrightarrow> 0 \<le> el \<longrightarrow>
            targetTime dur (Fin s) endT lp (Fin el) = Fin (s + spec_mod el (e - s)))
       \<and> targetTime dur (Fin s) endT (Some False) (Fin el) = Fin (min (s + el) e)
       \<and> targetTime dur (Fin 5) (Some (Fin 10)) (Some True) (Fin 7) = Fin 7"
proof -
  have w: "targetTime dur (Fin s) endT lp (Fin el) =
             (if lp \<noteq> Some False then jadd (Fin s) (jrem (Fin el) (Fin (e - s)))
              else Fin (min (s + el) e))" for lp
    by (rule targetTime_window [OF assms])
  have m: "0 \<le> el \<Longrightarrow> jrem (Fin el) (Fin (e - s)) = Fin (spec_mod el (e - s))"
    using assms(2) jrem_nonneg [of el "e - s"] by simp
  have ex: "targetTime dur (Fin 5) (Some (Fin 10)) (Some True) (Fin 7) = Fin 7"
    by (simp add: targetTime_def effectiveEndTime_def jsub_def jgt_def rtrunc_def)
  show ?thesis using w m ex by (simp del: jrem.simps)
qed

theorem targetTime_formula_witness:
  "effectiveEndTime (Fin 20) (Fin 5) (Some (Fin 10)) = Fin 10 \<and> (5::real) < 10
   \<and> targetTime (Fin 20) (Fin 5) (Some (Fin 10)) None (Fin 12) = Fin 7
   \<and> targetTime (Fin 20) (Fin 5) (Some (Fin 10)) (Some False) (Fin 12) = Fin 10"
proof -
  have h: "effectiveEndTime (Fin 20) (Fin 5) (Some (Fin 10)) = Fin 10"
    by (simp add: effectiveEndTime_def)
  have f: "\<lfloor>(12::real) / 5\<rfloor> = 2" by simp
  show ?thesis
    using h f targetTime_formula [OF h, of None 12] by (simp add: spec_mod_def rtrunc_def)
qed

text \<open>
  C1 as stated fails on an inverted or empty window, where the target is
  \<^verbatim>\<open>startTime\<close>: with \<^verbatim>\<open>startTime = 5\<close> and \<^verbatim>\<open>endTime = 3\<close> a slot that does not loop
  is sent to 5, not to \<^verbatim>\<open>min(5 + 0, 3)\<close>, and with \<^verbatim>\<open>endTime = startTime = 5\<close> a looping
  slot is sent to 5, where \<^verbatim>\<open>5 + (7 % 0)\<close> is \<^verbatim>\<open>NaN\<close>.
\<close>

theorem targetTime_formula_counterexample:
  "targetTime (Fin 20) (Fin 5) (Some (Fin 3)) (Some False) (Fin 0) \<noteq> Fin (min (5 + 0) 3)
   \<and> targetTime (Fin 20) (Fin 5) (Some (Fin 5)) (Some True) (Fin 7)
       \<noteq> jadd (Fin 5) (jrem (Fin 7) (jsub (Fin 5) (Fin 5)))"
  by (simp add: targetTime_def effectiveEndTime_def jsub_def jgt_def)

subsection \<open>The target stays in the trim window\<close>

lemma syncFrame_elOf:
  "elOf (syncFrame st t m) i =
     (case elapsedFor (timing st) i t of
        None \<Rightarrow> elOf m i
      | Some el \<Rightarrow> seekSlot (elOf m i) (slotOf st i) el)"
  by (cases i) (simp_all add: syncFrame_def Let_def)

lemma elapsedFor_nonneg:
  assumes "elapsedFor tm i t = Some el" and "0 \<le> t" and "i = IdA \<or> t1 tm + t2 tm \<le> t"
  shows "0 \<le> el"
  using assms by (cases i) (auto split: if_splits)

lemma targetTime_upper:
  assumes "effectiveEndTime dur (Fin s) endT = Fin e" and "s \<le> e"
  shows "\<exists>x. targetTime dur (Fin s) endT lp (Fin el) = Fin x \<and> x \<le> e"
proof (cases "s < e")
  case False
  then have "\<not> jgt (jsub (effectiveEndTime dur (Fin s) endT) (Fin s)) (Fin 0)"
    by (simp add: assms(1) jsub_def jgt_def)
  then have "targetTime dur (Fin s) endT lp (Fin el) = Fin s"
    by (rule targetTime_guard)
  then show ?thesis using assms(2) by simp
next
  case True
  show ?thesis
  proof (cases "lp = Some False")
    case clamp: True
    then show ?thesis by (simp add: targetTime_window [OF assms(1) True])
  next
    case wrap: False
    show ?thesis
    proof (cases "0 \<le> el")
      case nonneg: True
      have "spec_mod el (e - s) < e - s"
        using True spec_mod_range [of "e - s" el] by simp
      then show ?thesis
        using wrap True nonneg jrem_nonneg [of el "e - s"]
        by (simp add: targetTime_window [OF assms(1) True] del: jrem.simps)
    next
      case neg: False
      have "0 \<le> spec_mod (- el) (e - s)"
        using True spec_mod_range [of "e - s" "- el"] by simp
      then show ?thesis
        using wrap True neg jrem_neg [of el "e - s"]
        by (simp add: targetTime_window [OF assms(1) True] del: jrem.simps)
    qed
  qed
qed

lemma targetTime_wrap:
  assumes "effectiveEndTime dur (Fin s) endT = Fin e" and "s < e"
    and "lp \<noteq> Some False" and "0 \<le> el"
  shows "\<exists>r. jrem (Fin el) (Fin (e - s)) = Fin r \<and> 0 \<le> r \<and> r < e - s
           \<and> targetTime dur (Fin s) endT lp (Fin el) = Fin (s + r)"
proof -
  have r: "0 \<le> spec_mod el (e - s) \<and> spec_mod el (e - s) < e - s"
    using assms(2) spec_mod_range [of "e - s" el] by simp
  have j: "jrem (Fin el) (Fin (e - s)) = Fin (spec_mod el (e - s))"
    using assms(2,4) jrem_nonneg [of el "e - s"] by simp
  have "targetTime dur (Fin s) endT lp (Fin el) = Fin (s + spec_mod el (e - s))"
    using assms(3) j by (simp add: targetTime_window [OF assms(1,2)] del: jrem.simps)
  then show ?thesis using r j by blast
qed

lemma targetTime_lower:
  assumes "effectiveEndTime dur (Fin s) endT = Fin e" and "s \<le> e"
    and "lp \<noteq> Some False" and "0 \<le> el"
  shows "\<exists>x. targetTime dur (Fin s) endT lp (Fin el) = Fin x \<and> s \<le> x"
proof (cases "s < e")
  case True
  then show ?thesis using targetTime_wrap [OF assms(1) True assms(3,4)] by auto
next
  case False
  then have "\<not> jgt (jsub (effectiveEndTime dur (Fin s) endT) (Fin s)) (Fin 0)"
    by (simp add: assms(1) jsub_def jgt_def)
  then have "targetTime dur (Fin s) endT lp (Fin el) = Fin s"
    by (rule targetTime_guard)
  then show ?thesis by simp
qed

lemma newSeeks_seekSlot:
  assumes "y \<in> set (newSeeks (VideoEl v vw vh) (seekSlot (VideoEl v vw vh) slot el))"
  shows "y = targetTime (duration v) (Fin (startTime slot)) (map_option Fin (endTime slot))
               (loop slot) (Fin el)"
  using assms by (auto simp: seekVideo_def Let_def split: if_splits)

lemma demo_sync:
  "newSeeks (elB demoMedia) (elB (syncFrame demoState 3 demoMedia)) = [Fin (11 / 2)]"
proof -
  have t: "targetTime (Fin 20) (Fin 5) (Some (Fin 10)) (Some True) (Fin (1 / 2)) = Fin (11 / 2)"
    by (simp add: targetTime_def effectiveEndTime_def jsub_def jgt_def rtrunc_def)
  show ?thesis
    using t
    by (simp add: syncFrame_def demoState_def demoMedia_def demoTiming_def demoVideoSlot_def
        demoImageSlot_def demoVideo_def seekVideo_def jsub_def Let_def)
qed

text \<open>
  C2 (amended). Take a frame time \<open>t \<ge> 0\<close> and a video element whose slot has an
  effective trim window that is not inverted (\<^verbatim>\<open>startTime\<close> is at most the effective
  end). The render loop seeks slot a with the elapsed time \<open>t\<close> while \<open>t < t1 + t2\<close>, and
  a panel slot with \<open>t - (t1 + t2)\<close> from \<open>t \<ge> t1\<close> on. Every target it computes, and so
  every position it assigns, is at most the effective end, whether the slot loops or
  not and whatever the sign of the elapsed time. When the slot loops and the elapsed
  time is not negative, which holds for slot a always and for a panel from
  \<open>t \<ge> t1 + t2\<close> on, the target is also at least \<^verbatim>\<open>startTime\<close>: on a window that is not
  empty it is \<^verbatim>\<open>startTime\<close> plus a remainder that lies in the half-open interval from
  0 to the segment duration. The target itself is only placed in the closed interval:
  the sum of \<^verbatim>\<open>startTime\<close> and the remainder is rounded by the machine and can be the
  effective end (\<^verbatim>\<open>0.1 + 0.3 % (0.4 - 0.1)\<close> is \<^verbatim>\<open>0.4\<close>).
\<close>

theorem sync_targets_in_window:
  assumes "0 \<le> t" and "elOf m i = VideoEl v vw vh"
    and "slotEnd v (slotOf st i) = Fin e" and "startTime (slotOf st i) \<le> e"
  shows "elOf (syncFrame st t m) i =
           (case elapsedFor (timing st) i t of
              None \<Rightarrow> elOf m i
            | Some el \<Rightarrow> seekSlot (elOf m i) (slotOf st i) el)
       \<and> (\<forall>el. elapsedFor (timing st) i t = Some el \<longrightarrow>
            (\<exists>x. targetTime (duration v) (Fin (startTime (slotOf st i)))
                   (map_option Fin (endTime (slotOf st i))) (loop (slotOf st i)) (Fin el) = Fin x
                 \<and> x \<le> e
                 \<and> (loop (slotOf st i) \<noteq> Some False \<longrightarrow>
                      (i = IdA \<or> t1 (timing st) + t2 (timing st) \<le> t) \<longrightarrow>
                      startTime (slotOf st i) \<le> x)))
       \<and> (\<forall>y \<in> set (newSeeks (elOf m i) (elOf (syncFrame st t m) i)).
            \<exists>x. y = Fin x \<and> x \<le> e
              \<and> (loop (slotOf st i) \<noteq> Some False \<longrightarrow>
                   (i = IdA \<or> t1 (timing st) + t2 (timing st) \<le> t) \<longrightarrow>
                   startTime (slotOf st i) \<le> x))
       \<and> (startTime (slotOf st i) < e \<longrightarrow> loop (slotOf st i) \<noteq> Some False \<longrightarrow>
            (\<forall>el. elapsedFor (timing st) i t = Some el \<longrightarrow> 0 \<le> el \<longrightarrow>
               (\<exists>r. jrem (Fin el) (Fin (e - startTime (slotOf st i))) = Fin r
                    \<and> 0 \<le> r \<and> r < e - startTime (slotOf st i)
                    \<and> targetTime (duration v) (Fin (startTime (slotOf st i)))
                          (map_option Fin (endTime (slotOf st i))) (loop (slotOf st i)) (Fin el)
                        = Fin (startTime (slotOf st i) + r))))"
proof -
  let ?slot = "slotOf st i"
  let ?tt = "\<lambda>el. targetTime (duration v) (Fin (startTime ?slot))
                   (map_option Fin (endTime ?slot)) (loop ?slot) (Fin el)"
  have eff: "effectiveEndTime (duration v) (Fin (startTime ?slot))
               (map_option Fin (endTime ?slot)) = Fin e"
    using assms(3) by (simp add: slotEnd_def)
  have a: "elOf (syncFrame st t m) i =
           (case elapsedFor (timing st) i t of
              None \<Rightarrow> elOf m i
            | Some el \<Rightarrow> seekSlot (elOf m i) ?slot el)"
    by (rule syncFrame_elOf)
  have b: "\<exists>x. ?tt el = Fin x \<and> x \<le> e
              \<and> (loop ?slot \<noteq> Some False \<longrightarrow>
                   (i = IdA \<or> t1 (timing st) + t2 (timing st) \<le> t) \<longrightarrow>
                   startTime ?slot \<le> x)"
    if el: "elapsedFor (timing st) i t = Some el" for el
  proof -
    obtain x where x: "?tt el = Fin x" "x \<le> e"
      using targetTime_upper [OF eff assms(4)] by blast
    have "startTime ?slot \<le> x"
      if "loop ?slot \<noteq> Some False" and "i = IdA \<or> t1 (timing st) + t2 (timing st) \<le> t"
    proof -
      have "0 \<le> el" using elapsedFor_nonneg [OF el assms(1) that(2)] .
      then show ?thesis
        using targetTime_lower [OF eff assms(4) that(1), of el] x(1) by auto
    qed
    then show ?thesis using x by blast
  qed
  have c: "\<exists>x. y = Fin x \<and> x \<le> e
              \<and> (loop ?slot \<noteq> Some False \<longrightarrow>
                   (i = IdA \<or> t1 (timing st) + t2 (timing st) \<le> t) \<longrightarrow>
                   startTime ?slot \<le> x)"
    if y: "y \<in> set (newSeeks (elOf m i) (elOf (syncFrame st t m) i))" for y
  proof (cases "elapsedFor (timing st) i t")
    case None
    then show ?thesis using y by (simp add: a assms(2))
  next
    case (Some el)
    then have "y = ?tt el"
      using y newSeeks_seekSlot [of y v vw vh ?slot el] by (simp add: a assms(2))
    then show ?thesis using b [OF Some] by simp
  qed
  have d: "\<exists>r. jrem (Fin el) (Fin (e - startTime ?slot)) = Fin r
                    \<and> 0 \<le> r \<and> r < e - startTime ?slot
                    \<and> ?tt el = Fin (startTime ?slot + r)"
    if "startTime ?slot < e" and "loop ?slot \<noteq> Some False" and "0 \<le> el" for el
    by (rule targetTime_wrap [OF eff that])
  show ?thesis using a b c d by blast
qed

theorem sync_targets_in_window_witness:
  "(0::real) \<le> 3 \<and> elOf demoMedia IdB = VideoEl demoVideo 1920 1080
   \<and> slotEnd demoVideo (slotOf demoState IdB) = Fin 10
   \<and> startTime (slotOf demoState IdB) \<le> 10
   \<and> newSeeks (elOf demoMedia IdB) (elOf (syncFrame demoState 3 demoMedia) IdB) = [Fin (11 / 2)]
   \<and> (\<exists>x. hd (newSeeks (elOf demoMedia IdB) (elOf (syncFrame demoState 3 demoMedia) IdB))
          = Fin x \<and> x \<le> 10 \<and> 5 \<le> x)"
proof -
  have h2: "elOf demoMedia IdB = VideoEl demoVideo 1920 1080"
    by (simp add: demoMedia_def)
  have h3: "slotEnd demoVideo (slotOf demoState IdB) = Fin 10"
    by (simp add: slotEnd_def effectiveEndTime_def demoState_def demoVideoSlot_def demoVideo_def)
  have h4: "startTime (slotOf demoState IdB) \<le> 10"
    by (simp add: demoState_def demoVideoSlot_def)
  have h1: "(0::real) \<le> 3" by simp
  show ?thesis
    using h2 h3 h4 demo_sync sync_targets_in_window [OF h1 h2 h3 h4]
    by (simp add: demoState_def demoVideoSlot_def demoTiming_def)
qed

text \<open>
  C2 as stated fails twice. A slot that does not loop and whose window is inverted
  (\<^verbatim>\<open>startTime = 5\<close>, \<^verbatim>\<open>endTime = 3\<close>) is sent to 5, past its end. And at
  \<open>t = 2\<close> of the sample timing (\<open>t1 = 2\<close>, \<open>t2 = 0.5\<close>) the render loop seeks the
  looping panel B, trimmed to the window from 5 to 10, with the elapsed time \<open>-0.5\<close>,
  which sends it to 4.5, before \<^verbatim>\<open>startTime\<close>.
\<close>

theorem sync_targets_in_window_counterexample:
  "targetTime (Fin 20) (Fin 5) (Some (Fin 3)) (Some False) (Fin 0) = Fin 5 \<and> (3::real) < 5
   \<and> videoTime (elB (syncFrame demoState 2 demoMedia)) = Some (Fin (9 / 2))
   \<and> (9 / 2 :: real) < startTime (slotB demoState)"
proof -
  have a: "targetTime (Fin 20) (Fin 5) (Some (Fin 3)) (Some False) (Fin 0) = Fin 5"
    by (simp add: targetTime_def effectiveEndTime_def jsub_def jgt_def)
  have c: "\<lceil>- (1 / 10 :: real)\<rceil> = 0"
    by (rule ceiling_unique) simp_all
  have t: "targetTime (Fin 20) (Fin 5) (Some (Fin 10)) (Some True) (Fin (- (1 / 2))) = Fin (9 / 2)"
    using c by (simp add: targetTime_def effectiveEndTime_def jsub_def jgt_def rtrunc_def)
  have b: "videoTime (elB (syncFrame demoState 2 demoMedia)) = Some (Fin (9 / 2))"
    using t
    by (simp add: syncFrame_def demoState_def demoMedia_def demoTiming_def demoVideoSlot_def
        demoImageSlot_def demoVideo_def seekVideo_def jsub_def Let_def)
  show ?thesis using a b by (simp add: demoState_def demoVideoSlot_def)
qed

subsection \<open>The readiness wait is tolerance-based\<close>

text \<open>
  C9. When the element is already within 0.01 s of the target, \<^verbatim>\<open>seekVideo\<close> leaves it
  as it is and issues no seek; otherwise it assigns the target. So after the call the
  position read by the compositor is within 0.01 s of a finite target, and need not be
  equal to it.
\<close>

theorem seekVideo_tolerance:
  "(jlt (jabs (jsub (currentTime v) (targetTime (duration v) st endT lp el))) (Fin (1 / 100))
      \<longrightarrow> seekVideo v st endT lp el = v)
   \<and> (\<not> jlt (jabs (jsub (currentTime v) (targetTime (duration v) st endT lp el))) (Fin (1 / 100))
      \<longrightarrow> currentTime (seekVideo v st endT lp el) = targetTime (duration v) st endT lp el
          \<and> seeks (seekVideo v st endT lp el)
              = seeks v @ [targetTime (duration v) st endT lp el])
   \<and> ((\<exists>x. targetTime (duration v) st endT lp el = Fin x) \<longrightarrow>
        jlt (jabs (jsub (currentTime (seekVideo v st endT lp el))
                        (targetTime (duration v) st endT lp el))) (Fin (1 / 100)))"
  by (auto simp: seekVideo_def Let_def jsub_def)

theorem seekVideo_tolerance_witness:
  "targetTime (duration (demoVideo\<lparr>currentTime := Fin (7005 / 1000)\<rparr>))
       (Fin 5) (Some (Fin 10)) (Some True) (Fin 7) = Fin 7
   \<and> seekVideo (demoVideo\<lparr>currentTime := Fin (7005 / 1000)\<rparr>) (Fin 5) (Some (Fin 10))
         (Some True) (Fin 7) = demoVideo\<lparr>currentTime := Fin (7005 / 1000)\<rparr>
   \<and> currentTime (seekVideo (demoVideo\<lparr>currentTime := Fin (7005 / 1000)\<rparr>) (Fin 5)
         (Some (Fin 10)) (Some True) (Fin 7)) \<noteq> Fin 7
   \<and> currentTime (seekVideo demoVideo (Fin 5) (Some (Fin 10)) (Some True) (Fin 7)) = Fin 7"
proof -
  have t: "targetTime (Fin 20) (Fin 5) (Some (Fin 10)) (Some True) (Fin 7) = Fin 7"
    by (simp add: targetTime_def effectiveEndTime_def jsub_def jgt_def rtrunc_def)
  show ?thesis
    using t
      seekVideo_tolerance [of "demoVideo\<lparr>currentTime := Fin (7005 / 1000)\<rparr>" "Fin 5"
        "Some (Fin 10)" "Some True" "Fin 7"]
      seekVideo_tolerance [of demoVideo "Fin 5" "Some (Fin 10)" "Some True" "Fin 7"]
    by (simp add: demoVideo_def jsub_def)
qed

subsection \<open>The effective end and the guard on the segment\<close>

text \<open>
  C10. When \<^verbatim>\<open>endTime\<close> is unset or 0 the effective end is the duration of the source,
  and \<^verbatim>\<open>startTime + 60\<close> when that duration is infinite or \<^verbatim>\<open>NaN\<close>. Whenever the
  segment is not strictly positive the target is \<^verbatim>\<open>startTime\<close>. The remainder is
  therefore never taken by a zero-length segment: for a finite \<^verbatim>\<open>startTime\<close> and a
  finite elapsed time the target is always a finite number.
\<close>

theorem effectiveEnd_and_guard:
  "((endT = None \<or> endT = Some (Fin 0)) \<longrightarrow>
      effectiveEndTime dur (Fin s) endT
        = (if dur = PInf \<or> dur = NaN then Fin (s + 60) else dur))
   \<and> (\<not> jgt (jsub (effectiveEndTime dur (Fin s) endT) (Fin s)) (Fin 0) \<longrightarrow>
        targetTime dur (Fin s) endT lp (Fin el) = Fin s)
   \<and> (\<exists>x. targetTime dur (Fin s) endT lp (Fin el) = Fin x)"
proof -
  have a: "(endT = None \<or> endT = Some (Fin 0)) \<longrightarrow>
      effectiveEndTime dur (Fin s) endT
        = (if dur = PInf \<or> dur = NaN then Fin (s + 60) else dur)"
    by (cases dur) (auto simp: effectiveEndTime_def)
  show ?thesis
    using a targetTime_guard [of dur "Fin s" endT lp "Fin el"] targetTime_finite [of dur s endT lp el]
    by blast
qed

theorem effectiveEnd_and_guard_witness:
  "effectiveEndTime PInf (Fin 5) None = Fin 65
   \<and> effectiveEndTime (Fin 20) (Fin 5) (Some (Fin 0)) = Fin 20
   \<and> \<not> jgt (jsub (effectiveEndTime (Fin 20) (Fin 5) (Some (Fin 5))) (Fin 5)) (Fin 0)
   \<and> targetTime (Fin 20) (Fin 5) (Some (Fin 5)) (Some True) (Fin 7) = Fin 5"
proof -
  have g: "\<not> jgt (jsub (effectiveEndTime (Fin 20) (Fin 5) (Some (Fin 5))) (Fin 5)) (Fin 0)"
    by (simp add: effectiveEndTime_def jsub_def jgt_def)
  show ?thesis
    using g effectiveEnd_and_guard [of None PInf 5 None 0]
      effectiveEnd_and_guard [of "Some (Fin 0)" "Fin 20" 5 None 0]
      effectiveEnd_and_guard [of "Some (Fin 5)" "Fin 20" 5 "Some True" 7]
    by simp
qed

section \<open>Properties of the render loop\<close>

lemma released_releaseEl: "released (releaseEl e)"
  by (cases e) simp_all

lemma frameSync_encoded: "encoded (frameSync st tf f ls) = encoded ls"
  by (simp add: frameSync_def Let_def)

lemma frameEncode_encoded: "length (encoded (frameEncode st dims f ls)) = Suc (length (encoded ls))"
  by (simp add: frameEncode_def Let_def)

lemma frameEncode_progressLog: "progressLog (frameEncode st dims f ls) = progressLog ls"
  by (simp add: frameEncode_def Let_def)

lemma frameSync_progressLog:
  "progressLog (frameSync st tf f ls) =
     progressLog ls @ (if f mod 5 = 0 \<or> int f = tf then [progressOf f tf] else [])"
  by (simp add: frameSync_def Let_def)

lemma allReleased_releaseMedia: "allReleased (releaseMedia m)"
  by (simp add: allReleased_def releaseMedia_def released_releaseEl)

lemma totalFrames_demo: "totalFrames demoState = 270"
  by (simp add: totalFrames_def totalDuration_def timingValues_def FPS_def demoState_def demoTiming_def)

lemma totalFrames_zero: "totalFrames (demoState\<lparr>timing := zeroTiming\<rparr>) = 0"
  by (simp add: totalFrames_def totalDuration_def timingValues_def FPS_def demoState_def zeroTiming_def)

lemma frameLoop_stops:
  assumes "i \<le> k" and "int k \<le> tf" and "stopRequested ev k"
    and "\<forall>j. i \<le> j \<and> j < k \<longrightarrow> \<not> stopRequested ev j \<and> \<not> encodeThrows ev j"
  shows "\<exists>ls'. frameLoop ev st dims tf i ls = (Stopped, ls')
           \<and> length (encoded ls') = length (encoded ls) + (k - i)"
  using assms
proof (induction "k - i" arbitrary: i ls)
  case 0
  then have "i = k" by simp
  with 0 show ?case by (simp add: frameLoop.simps)
next
  case (Suc n)
  then have lt: "i < k" by simp
  then have ok: "\<not> stopRequested ev i" "\<not> encodeThrows ev i" "int i \<le> tf"
    using Suc.prems by auto
  have step: "frameLoop ev st dims tf i ls =
      frameLoop ev st dims tf (Suc i) (frameEncode st dims i (frameSync st tf i ls))"
    using ok by (simp add: frameLoop.simps)
  have "\<exists>ls'. frameLoop ev st dims tf (Suc i) (frameEncode st dims i (frameSync st tf i ls)) = (Stopped, ls')
           \<and> length (encoded ls') = length (encoded (frameEncode st dims i (frameSync st tf i ls))) + (k - Suc i)"
    using Suc.hyps(2) lt Suc.prems by (intro Suc.hyps(1)) auto
  then show ?case using step lt
    by (auto simp: frameEncode_encoded frameSync_encoded)
qed

subsection \<open>Cancellation\<close>

lemma sought_refl: "sought a a"
  by (cases a) simp_all

lemma sought_trans: "sought a b \<Longrightarrow> sought b c \<Longrightarrow> sought a c"
  by (cases a; cases b; cases c) simp_all

lemma sought_seekSlot: "sought a (seekSlot a slot el)"
  by (cases a) (simp_all add: seekVideo_def Let_def)

lemma soughtSet_refl: "soughtSet m m"
  by (simp add: soughtSet_def sought_refl)

lemma soughtSet_trans: "soughtSet a b \<Longrightarrow> soughtSet b c \<Longrightarrow> soughtSet a c"
  unfolding soughtSet_def by (blast intro: sought_trans)

lemma soughtSet_syncFrame: "soughtSet m (syncFrame st t m)"
  by (simp add: soughtSet_def syncFrame_def Let_def sought_seekSlot sought_refl)

lemma frameSync_media: "soughtSet (media ls) (media (frameSync st tf f ls))"
  by (simp add: frameSync_def Let_def soughtSet_syncFrame)

lemma frameEncode_media: "media (frameEncode st dims f ls) = media ls"
  by (simp add: frameEncode_def Let_def)

lemma frameLoop_media:
  "frameLoop ev st dims tf i ls = (oc, ls') \<Longrightarrow> soughtSet (media ls) (media ls')"
proof (induction ev st dims tf i ls rule: frameLoop.induct)
  case (1 ev st dims tf frame ls)
  show ?case
  proof (cases "int frame \<le> tf \<and> \<not> stopRequested ev frame")
    case False
    with "1.prems" have "ls' = ls"
      by (auto simp: frameLoop.simps split: if_splits)
    then show ?thesis by (simp add: soughtSet_refl)
  next
    case go: True
    show ?thesis
    proof (cases "encodeThrows ev frame")
      case True
      with go "1.prems" have "ls' = frameSync st tf frame ls"
        by (simp add: frameLoop.simps)
      then show ?thesis by (simp add: frameSync_media)
    next
      case False
      with go "1.prems"
      have "frameLoop ev st dims tf (Suc frame)
              (frameEncode st dims frame (frameSync st tf frame ls)) = (oc, ls')"
        by (simp add: frameLoop.simps)
      with "1.IH" go False
      have "soughtSet (media (frameEncode st dims frame (frameSync st tf frame ls))) (media ls')"
        by simp
      then show ?thesis
        using frameSync_media [of ls st tf frame] soughtSet_trans
        unfolding frameEncode_media by blast
    qed
  qed
qed

lemma releasedOf_releaseEl: "sought a b \<Longrightarrow> releasedOf a (releaseEl b)"
  by (cases a; cases b) simp_all

text \<open>
  C3. Suppose the render has reached its frame loop, the cancellation flag is first seen
  set by the check of iteration \<open>k \<le> totalFrames\<close>, and no earlier iteration threw. Then
  the loop aborts at that check, after exactly \<open>k\<close> encoded frames; the status becomes
  idle with no error message; no object URL and no output buffer are produced; the
  encoder is closed; and the four elements left behind are the four loaded elements,
  each video among them paused, emptied and detached.
\<close>

theorem cancellation_returns_to_idle:
  assumes "hasCanvas ev" and "hasVideoEncoder ev" and "loadedMedia ev = Some m"
    and "hasContext ev"
    and "int k \<le> totalFrames st" and "stopRequested ev k"
    and "\<forall>j. j < k \<longrightarrow> \<not> stopRequested ev j \<and> \<not> encodeThrows ev j"
  shows "(\<exists>ls. frameLoop ev st (mediaDims m) (totalFrames st) 0
                 \<lparr>media = m, progressLog = [], encoded = []\<rparr> = (Stopped, ls)
              \<and> length (encoded ls) = k)
       \<and> renderStatus (view (startRecording ev st vw)) = Idle
       \<and> renderError (view (startRecording ev st vw)) = None
       \<and> isPlaying (view (startRecording ev st vw)) = False
       \<and> recordedUrl (view (startRecording ev st vw)) = None
       \<and> outputBuffer (startRecording ev st vw) = None
       \<and> encoder (startRecording ev st vw) = Some Closed
       \<and> (\<exists>m'. finalMedia (startRecording ev st vw) = Some m' \<and> allReleased m'
              \<and> releasedOf (elA m) (elA m') \<and> releasedOf (elB m) (elB m')
              \<and> releasedOf (elC m) (elC m') \<and> releasedOf (elD m) (elD m'))"
proof -
  obtain ls where ls: "frameLoop ev st (mediaDims m) (totalFrames st) 0
                 \<lparr>media = m, progressLog = [], encoded = []\<rparr> = (Stopped, ls)"
      and len: "length (encoded ls) = k"
    using frameLoop_stops [of 0 k "totalFrames st" ev st "mediaDims m"
        "\<lparr>media = m, progressLog = [], encoded = []\<rparr>"] assms(5-7)
    by auto
  have r: "startRecording ev st vw =
      \<lparr>view = (lastProgress (vw\<lparr>renderStatus := Rendering, renderProgress := Fin 0,
                 renderError := None, recordedUrl := None, isPlaying := True,
                 lastRecordedQuality := Some (quality st)\<rparr>) ls)
               \<lparr>renderStatus := Idle, isPlaying := False\<rparr>,
       finalMedia = Some (releaseMedia (media ls)), encoder = Some Closed,
       outputBuffer = None\<rparr>"
    using assms(1-4) ls by (simp add: startRecording_def Let_def)
  have "soughtSet m (media ls)"
    using frameLoop_media [OF ls] by simp
  then have rel: "releasedOf (elA m) (elA (releaseMedia (media ls)))"
    "releasedOf (elB m) (elB (releaseMedia (media ls)))"
    "releasedOf (elC m) (elC (releaseMedia (media ls)))"
    "releasedOf (elD m) (elD (releaseMedia (media ls)))"
    by (simp_all add: soughtSet_def releaseMedia_def releasedOf_releaseEl)
  show ?thesis
    using ls len rel by (simp add: r lastProgress_def allReleased_releaseMedia)
qed

theorem cancellation_returns_to_idle_witness:
  "hasCanvas (demoEnv\<lparr>stopRequested := (\<lambda>k. 2 \<le> k)\<rparr>)
   \<and> int 2 \<le> totalFrames demoState
   \<and> stopRequested (demoEnv\<lparr>stopRequested := (\<lambda>k. 2 \<le> k)\<rparr>) 2
   \<and> \<not> stopRequested (demoEnv\<lparr>stopRequested := (\<lambda>k. 2 \<le> k)\<rparr>) 1
   \<and> renderStatus (view (startRecording (demoEnv\<lparr>stopRequested := (\<lambda>k. 2 \<le> k)\<rparr>)
         demoState demoView)) = Idle
   \<and> recordedUrl (view (startRecording (demoEnv\<lparr>stopRequested := (\<lambda>k. 2 \<le> k)\<rparr>)
         demoState demoView)) = None
   \<and> outputBuffer (startRecording (demoEnv\<lparr>stopRequested := (\<lambda>k. 2 \<le> k)\<rparr>)
         demoState demoView) = None
   \<and> (\<exists>m'. finalMedia (startRecording (demoEnv\<lparr>stopRequested := (\<lambda>k. 2 \<le> k)\<rparr>)
         demoState demoView) = Some m' \<and> allReleased m'
          \<and> releasedOf (VideoEl demoVideo 1920 1080) (elB m')
          \<and> releasedOf (ImageEl 1920 1080) (elA m'))"
  using cancellation_returns_to_idle [of "demoEnv\<lparr>stopRequested := (\<lambda>k. 2 \<le> k)\<rparr>"
      demoMedia 2 demoState demoView]
  by (auto simp: demoEnv_def totalFrames_demo demoMedia_def)

subsection \<open>Progress reports\<close>

lemma reported_empty: "reported tf i i = []"
  by (simp add: reported_def)

lemma reported_step:
  "i < n \<Longrightarrow> reported tf i n =
     (if i mod 5 = 0 \<or> int i = tf then [progressOf i tf] else []) @ reported tf (Suc i) n"
  by (simp add: reported_def upt_conv_Cons)

lemma frameLoop_log:
  "frameLoop ev st dims tf i ls = (oc, ls') \<Longrightarrow>
     \<exists>n. i \<le> n \<and> progressLog ls' = progressLog ls @ reported tf i n
         \<and> (int i \<le> tf + 1 \<longrightarrow> int n \<le> tf + 1)
         \<and> (oc = Finished \<longrightarrow> int i \<le> tf + 1 \<longrightarrow> int n = tf + 1)"
proof (induction ev st dims tf i ls rule: frameLoop.induct)
  case (1 ev st dims tf frame ls)
  show ?case
  proof (cases "int frame \<le> tf")
    case False
    with "1.prems" have "oc = Finished" "ls' = ls" by (simp_all add: frameLoop.simps)
    with False show ?thesis
      by (intro exI [of _ frame]) (auto simp: reported_empty)
  next
    case in_range: True
    show ?thesis
    proof (cases "stopRequested ev frame")
      case True
      with in_range "1.prems" have "oc = Stopped" "ls' = ls" by (simp_all add: frameLoop.simps)
      with in_range show ?thesis
        by (intro exI [of _ frame]) (auto simp: reported_empty)
    next
      case no_stop: False
      show ?thesis
      proof (cases "encodeThrows ev frame")
        case True
        with in_range no_stop "1.prems" have r: "oc = Faulted" "ls' = frameSync st tf frame ls"
          by (simp_all add: frameLoop.simps)
        have "reported tf frame (Suc frame) =
                (if frame mod 5 = 0 \<or> int frame = tf then [progressOf frame tf] else [])"
          by (simp add: reported_def)
        with r in_range show ?thesis
          by (intro exI [of _ "Suc frame"]) (auto simp: frameSync_progressLog)
      next
        case False
        with in_range no_stop "1.prems"
        have "frameLoop ev st dims tf (Suc frame)
                (frameEncode st dims frame (frameSync st tf frame ls)) = (oc, ls')"
          by (simp add: frameLoop.simps)
        from "1.IH" [OF in_range no_stop False this]
        obtain n where n: "Suc frame \<le> n"
          "progressLog ls' = progressLog (frameEncode st dims frame (frameSync st tf frame ls))
             @ reported tf (Suc frame) n"
          "int (Suc frame) \<le> tf + 1 \<longrightarrow> int n \<le> tf + 1"
          "oc = Finished \<longrightarrow> int (Suc frame) \<le> tf + 1 \<longrightarrow> int n = tf + 1"
          by blast
        have lt: "frame < n" using n(1) by simp
        show ?thesis
          using n in_range reported_step [OF lt, of tf]
          by (intro exI [of _ n]) (auto simp: frameEncode_progressLog frameSync_progressLog)
      qed
    qed
  qed
qed


lemma progressOf_pct: "0 < tf \<Longrightarrow> progressOf f tf = Fin (pct tf f)"
  by (simp add: progressOf_def pct_def)

lemma reported_pct:
  "0 < tf \<Longrightarrow> reported tf i n =
     map Fin (map (pct tf) (filter (\<lambda>f. f mod 5 = 0 \<or> int f = tf) [i..<n]))"
  by (simp add: reported_def progressOf_pct)

lemma pct_mono: "0 < tf \<Longrightarrow> f \<le> g \<Longrightarrow> pct tf f \<le> pct tf g"
  by (simp add: pct_def divide_right_mono)

lemma pct_range:
  assumes "0 < tf" and "int f \<le> tf"
  shows "0 \<le> pct tf f \<and> pct tf f \<le> 100"
proof -
  have le: "real f \<le> real_of_int tf" using assms(2) by linarith
  have pos: "0 < real_of_int tf" using assms(1) by simp
  have "real f / real_of_int tf \<le> 1"
    using le pos by (simp add: divide_le_eq)
  then have "real f / real_of_int tf * 100 \<le> 1 * 100"
    by (rule mult_right_mono) simp
  moreover have "0 \<le> real f / real_of_int tf * 100" using pos by simp
  ultimately show ?thesis unfolding pct_def by simp
qed

lemma sorted_pcts:
  assumes "0 < tf"
  shows "sorted (map (pct tf) (filter P [i..<n]))"
proof -
  have "sorted (filter P [i..<n])"
    by (rule sorted_wrt_filter) simp
  then have "sorted_wrt (\<lambda>f g. pct tf f \<le> pct tf g) (filter P [i..<n])"
    by (rule sorted_wrt_mono_rel [rotated]) (simp add: pct_mono [OF assms])
  then show ?thesis by (simp add: sorted_wrt_map)
qed

lemma last_pcts:
  assumes "0 < tf"
  shows "map (pct tf) (filter (\<lambda>f. f mod 5 = 0 \<or> int f = tf) [0..<Suc (nat tf)]) \<noteq> []
       \<and> last (map (pct tf) (filter (\<lambda>f. f mod 5 = 0 \<or> int f = tf) [0..<Suc (nat tf)])) = 100"
  using assms by (simp add: pct_def)

lemma progress_reports_in_range:
  assumes "0 < tf"
    and "frameLoop ev st dims tf 0 \<lparr>media = m, progressLog = [], encoded = []\<rparr> = (oc, ls')"
  shows "\<exists>ps. progressLog ls' = map Fin ps \<and> sorted ps
           \<and> (\<forall>p \<in> set ps. 0 \<le> p \<and> p \<le> 100)
           \<and> (oc = Finished \<longrightarrow> ps \<noteq> [] \<and> last ps = 100)"
proof -
  obtain n where n: "progressLog ls' = reported tf 0 n" "int n \<le> tf + 1"
      "oc = Finished \<longrightarrow> int n = tf + 1"
    using frameLoop_log [OF assms(2)] assms(1) by auto
  let ?ps = "map (pct tf) (filter (\<lambda>f. f mod 5 = 0 \<or> int f = tf) [0..<n])"
  have a: "progressLog ls' = map Fin ?ps"
    using n(1) reported_pct [OF assms(1)] by simp
  have b: "sorted ?ps" by (rule sorted_pcts [OF assms(1)])
  have c: "\<forall>p \<in> set ?ps. 0 \<le> p \<and> p \<le> 100"
    using n(2) pct_range [OF assms(1)] by auto
  have d: "oc = Finished \<longrightarrow> ?ps \<noteq> [] \<and> last ?ps = 100"
  proof
    assume "oc = Finished"
    with n(3) assms(1) have "n = Suc (nat tf)" by linarith
    then show "?ps \<noteq> [] \<and> last ?ps = 100"
      using last_pcts [OF assms(1)] by simp
  qed
  show ?thesis using a b c d by blast
qed

text \<open>
  C7 fails on a timeline of total duration 0. Then \<^verbatim>\<open>totalFrames\<close> is 0, the loop runs
  its single iteration for frame 0, which is also the final frame, and the value
  reported is \<^verbatim>\<open>0 / 0 * 100\<close>, that is \<^verbatim>\<open>NaN\<close>: the render completes with the
  progress \<^verbatim>\<open>NaN\<close>, not 100. (For \<open>totalFrames > 0\<close> the reports are as claimed, see
  \<open>progress_reports_in_range\<close>.)
\<close>

theorem progress_nan_on_empty_timeline:
  "totalFrames (demoState\<lparr>timing := zeroTiming\<rparr>) = 0
   \<and> renderStatus (view (startRecording demoEnv (demoState\<lparr>timing := zeroTiming\<rparr>) demoView))
       = Completed
   \<and> renderProgress (view (startRecording demoEnv (demoState\<lparr>timing := zeroTiming\<rparr>) demoView))
       = NaN"
proof -
  let ?st = "demoState\<lparr>timing := zeroTiming\<rparr>"
  let ?ls0 = "\<lparr>media = demoMedia, progressLog = [], encoded = []\<rparr>"
  let ?ls1 = "frameEncode ?st (mediaDims demoMedia) 0 (frameSync ?st 0 0 ?ls0)"
  have l: "frameLoop demoEnv ?st (mediaDims demoMedia) 0 0 ?ls0 = (Finished, ?ls1)"
    by (simp add: frameLoop.simps demoEnv_def)
  have p: "progressLog ?ls1 = [NaN]"
    by (simp add: frameEncode_progressLog frameSync_progressLog progressOf_def)
  have "startRecording demoEnv ?st demoView =
      \<lparr>view = (lastProgress (demoView\<lparr>renderStatus := Rendering, renderProgress := Fin 0,
                 renderError := None, recordedUrl := None, isPlaying := True,
                 lastRecordedQuality := Some (quality ?st)\<rparr>) ?ls1)
               \<lparr>recordedUrl := Some (objectUrl demoEnv), renderStatus := Completed,
                isPlaying := False\<rparr>,
       finalMedia = Some (releaseMedia (media ?ls1)), encoder = Some Closed,
       outputBuffer = Some (encoded ?ls1)\<rparr>"
    using l by (simp add: startRecording_def Let_def totalFrames_zero demoEnv_def)
  then show ?thesis
    using p by (simp add: totalFrames_zero lastProgress_def)
qed

section \<open>Properties of the compositor\<close>

lemma totalDuration_sum:
  "totalDuration tm = t1 tm + t2 tm + t3 tm + t4 tm + tHold tm + t5 tm + t6 tm + t7 tm"
  by (simp add: totalDuration_def timingValues_def)

lemma fadeOpacity_value:
  assumes "t > totalDuration tm - t7 tm"
  shows "fadeOpacity tm t =
           (if t7 tm = 0 then Fin 1
            else Fin (min ((t - (totalDuration tm - t7 tm)) / t7 tm) 1))"
  using assms by (simp add: fadeOpacity_def jmin_def min_def)

lemma getBounce_bump:
  assumes "0 < t4 tm"
  shows "getBounce tm an ct delay = Fin (bump tm an (t3 tm + delay) ct)"
proof -
  have e: "ct - t3 tm - delay = ct - (t3 tm + delay)" by simp
  have pos: "t4 tm / 3 \<noteq> 0" using assms by simp
  show ?thesis
  proof (cases "ct - (t3 tm + delay) < 0 \<or> ct - (t3 tm + delay) > t4 tm / 3")
    case True
    then show ?thesis unfolding getBounce_def bump_def Let_def e by auto
  next
    case False
    then have "t3 tm + delay \<le> ct \<and> ct \<le> t3 tm + delay + t4 tm / 3" by auto
    then show ?thesis
      using False pos unfolding getBounce_def bump_def Let_def e by simp
  qed
qed

lemma getBounce_outside:
  assumes "ct < t3 tm + delay \<or> ct > t3 tm + delay + t4 tm / 3"
  shows "getBounce tm an ct delay = Fin 1"
  using assms by (auto simp: getBounce_def Let_def)





subsection \<open>Quantities that stay in range\<close>

text \<open>
  With durations that are not negative, the intro opacity, the zoom of the intro, the
  overlay opacity and the opacity of the final fade are finite and in range wherever the
  frame computes them, a zero duration included; so is the bounce scale when the bounce
  phase has positive length.
\<close>

lemma introOpacity_range:
  assumes "t < t1 tm + t2 tm"
  shows "\<exists>x. introOpacity tm t = Fin x \<and> 0 \<le> x \<and> x \<le> 1"
proof (cases "t < t1 tm")
  case True
  then show ?thesis by (simp add: introOpacity_def)
next
  case False
  then have pos: "0 < t2 tm" and a: "0 \<le> t - t1 tm" and b: "t - t1 tm < t2 tm"
    using assms by simp_all
  have q: "0 \<le> (t - t1 tm) / t2 tm \<and> (t - t1 tm) / t2 tm < 1"
    using pos a b by simp
  have "introOpacity tm t = Fin (1 - (t - t1 tm) / t2 tm)"
    using False pos q by (simp add: introOpacity_def jsub_def jmax_def)
  then show ?thesis using q by simp
qed

lemma kenBurns_range:
  assumes "0 \<le> t" and "t < t1 tm + t2 tm"
  shows "\<exists>x. kenBurns tm t = Fin x \<and> 1 \<le> x \<and> x < 105 / 100"
proof -
  define q where "q = t / (t1 tm + t2 tm)"
  have pos: "0 < t1 tm + t2 tm" using assms by simp
  have q: "0 \<le> q \<and> q < 1"
    unfolding q_def using pos assms by simp
  have "jdiv (Fin t) (Fin (t1 tm + t2 tm)) = Fin q"
    unfolding q_def using pos by simp
  then have "kenBurns tm t = Fin (1 + q * (5 / 100))"
    unfolding kenBurns_def by simp
  moreover have "1 \<le> 1 + q * (5 / 100) \<and> 1 + q * (5 / 100) < 105 / 100"
    using q by simp
  ultimately show ?thesis by blast
qed

lemma overlayOpacity_range:
  assumes "0 < ot" and "0 \<le> t5 tm"
  shows "\<exists>x. overlayOpacity tm ot = Fin x \<and> 0 < x \<and> x \<le> 1"
proof (cases "t5 tm = 0")
  case True
  then show ?thesis using assms by (simp add: overlayOpacity_def jmin_def)
next
  case False
  then have pos: "0 < t5 tm" using assms by simp
  then have q: "0 < ot / t5 tm" using assms by simp
  show ?thesis
    using pos q by (auto simp: overlayOpacity_def jmin_def)
qed

lemma fadeOpacity_range:
  assumes "t > totalDuration tm - t7 tm" and "0 \<le> t7 tm"
  shows "\<exists>x. fadeOpacity tm t = Fin x \<and> 0 < x \<and> x \<le> 1"
proof (cases "t7 tm = 0")
  case True
  then show ?thesis using assms by (simp add: fadeOpacity_value)
next
  case False
  then have pos: "0 < t7 tm" using assms by simp
  then have q: "0 < (t - (totalDuration tm - t7 tm)) / t7 tm" using assms by simp
  show ?thesis
    using False q by (auto simp: fadeOpacity_value [OF assms(1)] min_def)
qed

lemma getBounce_range:
  assumes "0 < t4 tm" and "1 \<le> bounceScale an"
  shows "\<exists>x. getBounce tm an ct delay = Fin x \<and> 1 \<le> x \<and> x \<le> bounceScale an"
proof (cases "t3 tm + delay \<le> ct \<and> ct \<le> t3 tm + delay + t4 tm / 3")
  case False
  then have "getBounce tm an ct delay = Fin 1"
    by (intro getBounce_outside) auto
  then show ?thesis using assms(2) by simp
next
  case True
  define q where "q = (ct - (t3 tm + delay)) / (t4 tm / 3)"
  have d: "0 < t4 tm / 3" using assms(1) by simp
  have "0 \<le> ct - (t3 tm + delay)" and "ct - (t3 tm + delay) \<le> t4 tm / 3"
    using True by simp_all
  then have f: "0 \<le> q \<and> q \<le> 1"
    unfolding q_def using d by (simp only: zero_le_divide_iff divide_le_eq_1) auto
  have lo: "0 \<le> q * pi" using f by simp
  have hi: "q * pi \<le> pi"
    using f mult_right_mono [of q 1 pi] by simp
  have s: "0 \<le> sin (q * pi) \<and> sin (q * pi) \<le> 1"
    using sin_ge_zero [OF lo hi] by simp
  have m: "sin (q * pi) * (bounceScale an - 1) \<le> 1 * (bounceScale an - 1)"
    using s assms(2) by (intro mult_right_mono) simp_all
  have n: "0 \<le> sin (q * pi) * (bounceScale an - 1)"
    using s assms(2) by simp
  have "bump tm an (t3 tm + delay) ct = 1 + sin (q * pi) * (bounceScale an - 1)"
    unfolding bump_def q_def using True by simp
  then have "getBounce tm an ct delay = Fin (1 + sin (q * pi) * (bounceScale an - 1))"
    using getBounce_bump [OF assms(1), of an ct delay] by simp
  then show ?thesis using m n by simp
qed

subsection \<open>The final fade\<close>

text \<open>
  C4. For every frame time \<open>t > totalDuration - t7\<close> the last operation of the frame, on
  top of everything else, is a full-frame rectangle in \<^verbatim>\<open>fadeColor\<close> whose opacity is
  \<^verbatim>\<open>min((t - (totalDuration - t7)) / t7, 1)\<close> (which is 1 when \<open>t7 = 0\<close>, as
  \<^verbatim>\<open>Math.min(Infinity, 1)\<close>); for \<open>t \<le> totalDuration - t7\<close> no such rectangle is drawn.
  \<^verbatim>\<open>totalDuration\<close> is the sum of all eight durations, \<open>t7\<close> included.
\<close>

theorem final_fade_on_top:
  "(t > totalDuration (timing st) - t7 (timing st) \<longrightarrow>
      renderFrame st dims t =
        drawScene st dims t @
        [FillRect (if fadeColor (animation st) = White then ''#FFFFFF'' else ''#000000'')
           (fadeOpacity (timing st) t) (Fin 0, Fin 0, Fin 1920, Fin 1080)]
      \<and> fadeOpacity (timing st) t =
          (if t7 (timing st) = 0 then Fin 1
           else Fin (min ((t - (totalDuration (timing st) - t7 (timing st))) / t7 (timing st)) 1)))
   \<and> (t \<le> totalDuration (timing st) - t7 (timing st) \<longrightarrow>
        finalFade (timing st) (animation st) t = []
        \<and> renderFrame st dims t = drawScene st dims t)
   \<and> totalDuration (timing st) =
        t1 (timing st) + t2 (timing st) + t3 (timing st) + t4 (timing st) + tHold (timing st)
        + t5 (timing st) + t6 (timing st) + t7 (timing st)"
  using fadeOpacity_value [of "timing st" t] totalDuration_sum [of "timing st"]
  by (simp add: renderFrame_def finalFade_def Let_def)

theorem final_fade_on_top_witness:
  "(19 / 2 :: real) > totalDuration (timing (demoState\<lparr>timing := demoTiming\<lparr>t7 := 1\<rparr>\<rparr>))
        - t7 (timing (demoState\<lparr>timing := demoTiming\<lparr>t7 := 1\<rparr>\<rparr>))
   \<and> last (renderFrame (demoState\<lparr>timing := demoTiming\<lparr>t7 := 1\<rparr>\<rparr>) (mediaDims demoMedia) (19 / 2))
       = FillRect ''#000000'' (Fin (1 / 2)) (Fin 0, Fin 0, Fin 1920, Fin 1080)
   \<and> (9 :: real) \<le> totalDuration (timing (demoState\<lparr>timing := demoTiming\<lparr>t7 := 1\<rparr>\<rparr>))
        - t7 (timing (demoState\<lparr>timing := demoTiming\<lparr>t7 := 1\<rparr>\<rparr>))
   \<and> finalFade (demoTiming\<lparr>t7 := 1\<rparr>) (animation demoState) 9 = []"
  using final_fade_on_top [where t = "19 / 2" and st = "demoState\<lparr>timing := demoTiming\<lparr>t7 := 1\<rparr>\<rparr>"
      and dims = "mediaDims demoMedia"]
    final_fade_on_top [where t = 9 and st = "demoState\<lparr>timing := demoTiming\<lparr>t7 := 1\<rparr>\<rparr>"
      and dims = "mediaDims demoMedia"]
  by (simp add: demoState_def demoTiming_def)

subsection \<open>The bounce\<close>

text \<open>
  With a bounce phase of positive length, the scales of panels B, C and D are sine
  bumps of amplitude \<^verbatim>\<open>bounceScale - 1\<close> over windows of length \<^verbatim>\<open>t4 / 3\<close> that begin at
  the collage-local times \<open>t3\<close>, \<open>t3 + t4 / 3\<close> and \<open>t3 + 2 * t4 / 3\<close>; the peak, in the
  middle of a window, is \<^verbatim>\<open>bounceScale\<close>, and the bump is exactly 1 outside the half-open
  window, its right end included.
\<close>

lemma bump_outside_half_open:
  assumes "0 < t4 tm" and "\<not> (start \<le> ct \<and> ct < start + t4 tm / 3)"
  shows "bump tm an start ct = 1"
proof (cases "ct = start + t4 tm / 3")
  case True
  have "(start + t4 tm / 3 - start) / (t4 tm / 3) = 1"
    using assms(1) by simp
  then have "sin ((start + t4 tm / 3 - start) / (t4 tm / 3) * pi) = 0"
    by (simp only: mult_1 sin_pi)
  then show ?thesis unfolding bump_def True by simp
next
  case False
  then show ?thesis using assms(2) by (auto simp: bump_def)
qed

lemma bounce_windows:
  "(0 < t4 tm \<longrightarrow>
      panelScales tm an ct =
        (Fin (bump tm an (t3 tm) ct),
         Fin (bump tm an (t3 tm + t4 tm / 3) ct),
         Fin (bump tm an (t3 tm + 2 * (t4 tm / 3)) ct)))
   \<and> (ct < t3 tm \<or> ct > t3 tm + t4 tm / 3 \<longrightarrow> fst (panelScales tm an ct) = Fin 1)
   \<and> (ct < t3 tm + t4 tm / 3 \<or> ct > t3 tm + t4 tm / 3 + t4 tm / 3 \<longrightarrow>
        fst (snd (panelScales tm an ct)) = Fin 1)
   \<and> (ct < t3 tm + 2 * (t4 tm / 3) \<or> ct > t3 tm + 2 * (t4 tm / 3) + t4 tm / 3 \<longrightarrow>
        snd (snd (panelScales tm an ct)) = Fin 1)
   \<and> (0 < t4 tm \<longrightarrow> bump tm an (t3 tm) (t3 tm + t4 tm / 6) = bounceScale an)"
proof -
  have eq: "(t4 tm / 3) * 2 = 2 * (t4 tm / 3)" by simp
  have a: "panelScales tm an ct =
        (Fin (bump tm an (t3 tm) ct),
         Fin (bump tm an (t3 tm + t4 tm / 3) ct),
         Fin (bump tm an (t3 tm + 2 * (t4 tm / 3)) ct))" if pos: "0 < t4 tm"
  proof (cases "ct < t3 tm")
    case True
    then show ?thesis using pos by (simp add: panelScales_def bump_def)
  next
    case False
    then show ?thesis
      unfolding panelScales_def eq
      using getBounce_bump [OF pos, of an ct 0] getBounce_bump [OF pos, of an ct "t4 tm / 3"]
        getBounce_bump [OF pos, of an ct "2 * (t4 tm / 3)"]
      by simp
  qed
  have b: "fst (panelScales tm an ct) = Fin 1" if "ct < t3 tm \<or> ct > t3 tm + t4 tm / 3"
    using that getBounce_outside [of ct tm 0 an] by (simp add: panelScales_def)
  have c: "fst (snd (panelScales tm an ct)) = Fin 1"
    if "ct < t3 tm + t4 tm / 3 \<or> ct > t3 tm + t4 tm / 3 + t4 tm / 3"
    using that getBounce_outside [of ct tm "t4 tm / 3" an] by (simp add: panelScales_def)
  have d: "snd (snd (panelScales tm an ct)) = Fin 1"
    if "ct < t3 tm + 2 * (t4 tm / 3) \<or> ct > t3 tm + 2 * (t4 tm / 3) + t4 tm / 3"
    unfolding panelScales_def eq
    using that getBounce_outside [of ct tm "2 * (t4 tm / 3)" an] by simp
  have e: "bump tm an (t3 tm) (t3 tm + t4 tm / 6) = bounceScale an" if pos: "0 < t4 tm"
  proof -
    have r: "(t3 tm + t4 tm / 6 - t3 tm) / (t4 tm / 3) = 1 / 2"
      using pos by (simp add: field_simps)
    have s1: "sin ((t3 tm + t4 tm / 6 - t3 tm) / (t4 tm / 3) * pi) = 1"
      unfolding r by simp
    have w: "t3 tm \<le> t3 tm + t4 tm / 6 \<and> t3 tm + t4 tm / 6 \<le> t3 tm + t4 tm / 3"
      using pos by simp
    show ?thesis unfolding bump_def using w s1 by simp
  qed
  show ?thesis using a b c d e by blast
qed

lemma bounce_windows_example:
  "0 < t4 demoTiming
   \<and> panelScales demoTiming (animation demoState) (3 / 4) = (Fin (108 / 100), Fin 1, Fin 1)
   \<and> (3 / 4 :: real) < t3 demoTiming + t4 demoTiming / 3"
proof -
  have b: "bump demoTiming (animation demoState) (1 / 2) (3 / 4) = 108 / 100"
    using bounce_windows [of demoTiming "animation demoState" "3 / 4"]
    by (simp add: demoTiming_def demoState_def)
  have c: "bump demoTiming (animation demoState) 1 (3 / 4) = 1"
    "bump demoTiming (animation demoState) (3 / 2) (3 / 4) = 1"
    by (simp_all add: bump_def)
  show ?thesis
    using b c bounce_windows [of demoTiming "animation demoState" "3 / 4"]
    by (simp add: demoTiming_def)
qed

text \<open>
  C5 fails when the bounce duration is 0. The three windows, of length \<^verbatim>\<open>t4 / 3 = 0\<close>,
  are then empty, so every collage-local time is outside them and the claim makes every
  scale 1. But at the frame whose collage-local time equals \<open>t3\<close> (\<open>t = 3\<close> with
  \<open>t1 = 2\<close>, \<open>t2 = 0.5\<close>, \<open>t3 = 0.5\<close>) \<^verbatim>\<open>getBounce\<close> divides 0 by 0 and all three
  scales are \<^verbatim>\<open>NaN\<close>.
\<close>

theorem bounce_scale_outside_empty_window:
  "t4 (demoTiming\<lparr>t4 := 0\<rparr>) = 0
   \<and> \<not> (t3 (demoTiming\<lparr>t4 := 0\<rparr>) \<le> 3 - (2 + 1 / 2)
          \<and> 3 - (2 + 1 / 2) < t3 (demoTiming\<lparr>t4 := 0\<rparr>) + t4 (demoTiming\<lparr>t4 := 0\<rparr>) / 3)
   \<and> fst (panelScales (demoTiming\<lparr>t4 := 0\<rparr>) (animation demoState) (3 - (2 + 1 / 2))) = NaN
   \<and> fst (snd (panelScales (demoTiming\<lparr>t4 := 0\<rparr>) (animation demoState) (3 - (2 + 1 / 2)))) = NaN
   \<and> snd (snd (panelScales (demoTiming\<lparr>t4 := 0\<rparr>) (animation demoState) (3 - (2 + 1 / 2)))) = NaN
   \<and> NaN \<noteq> Fin 1"
proof -
  have n: "(3 - (2 + 1 / 2) :: real) = 1 / 2" by simp
  have g: "getBounce (demoTiming\<lparr>t4 := 0\<rparr>) (animation demoState) (1 / 2) 0 = NaN"
    by (simp add: getBounce_def demoTiming_def)
  have p: "panelScales (demoTiming\<lparr>t4 := 0\<rparr>) (animation demoState) (1 / 2) = (NaN, NaN, NaN)"
    using g by (simp add: panelScales_def demoTiming_def)
  show ?thesis unfolding n using p by (simp add: demoTiming_def)
qed

subsection \<open>Zero durations\<close>

text \<open>
  C6 fails when the bounce duration is 0. At the frame whose collage-local time equals
  \<open>t3\<close> (here \<open>t = 3\<close> with \<open>t1 = 2\<close>, \<open>t2 = 0.5\<close>, \<open>t3 = 0.5\<close>, \<open>t4 = 0\<close>) the
  window test of \<^verbatim>\<open>getBounce\<close> lets \<open>bt = 0\<close> through and the scale is
  \<^verbatim>\<open>1 + sin(0 / 0 * PI) * (bounceScale - 1)\<close>, that is \<^verbatim>\<open>NaN\<close>, for all three panels,
  which are then drawn with \<^verbatim>\<open>NaN\<close> coordinates. Likewise \<^verbatim>\<open>entryProgress\<close> is
  \<^verbatim>\<open>Math.min(0 / 0, 1) = NaN\<close> at collage-local time 0 when \<open>t3 = 0\<close>. (The other
  quantities are in range, see \<open>introOpacity_range\<close>, \<open>kenBurns_range\<close>,
  \<open>overlayOpacity_range\<close> and \<open>fadeOpacity_range\<close>.)
\<close>

theorem bounce_nan_on_zero_duration:
  "getBounce (demoTiming\<lparr>t4 := 0\<rparr>) (animation demoState) (3 - (2 + 1 / 2)) 0 = NaN
   \<and> panelScales (demoTiming\<lparr>t4 := 0\<rparr>) (animation demoState) (3 - (2 + 1 / 2)) = (NaN, NaN, NaN)
   \<and> drawPanels (demoState\<lparr>timing := demoTiming\<lparr>t4 := 0\<rparr>\<rparr>) (snd (mediaDims demoMedia))
         (3 - (2 + 1 / 2))
       = [DrawImage IdB (Fin 1) (Some (Fin 0, Fin 0, Fin 640, Fin 1080)) (NaN, NaN, NaN, NaN),
          DrawImage IdC (Fin 1) (Some (Fin 640, Fin 0, Fin 640, Fin 1080)) (NaN, NaN, NaN, NaN),
          DrawImage IdD (Fin 1) (Some (Fin 1280, Fin 0, Fin 640, Fin 1080)) (NaN, NaN, NaN, NaN)]
   \<and> entryProgress (demoTiming\<lparr>t3 := 0\<rparr>) 0 = NaN"
proof -
  have g: "getBounce (demoTiming\<lparr>t4 := 0\<rparr>) (animation demoState) (1 / 2) 0 = NaN"
    by (simp add: getBounce_def demoTiming_def)
  have p: "panelScales (demoTiming\<lparr>t4 := 0\<rparr>) (animation demoState) (1 / 2) = (NaN, NaN, NaN)"
    using g by (simp add: panelScales_def demoTiming_def)
  have d: "drawPanels (demoState\<lparr>timing := demoTiming\<lparr>t4 := 0\<rparr>\<rparr>) (snd (mediaDims demoMedia)) (1 / 2)
       = [DrawImage IdB (Fin 1) (Some (Fin 0, Fin 0, Fin 640, Fin 1080)) (NaN, NaN, NaN, NaN),
          DrawImage IdC (Fin 1) (Some (Fin 640, Fin 0, Fin 640, Fin 1080)) (NaN, NaN, NaN, NaN),
          DrawImage IdD (Fin 1) (Some (Fin 1280, Fin 0, Fin 640, Fin 1080)) (NaN, NaN, NaN, NaN)]"
    using p
    by (simp add: drawPanels_def drawPanel_def mediaDims_def demoMedia_def demoState_def
        panelWidth_def jgt_def jsub_def Let_def)
  have e: "entryProgress (demoTiming\<lparr>t3 := 0\<rparr>) 0 = NaN"
    by (simp add: entryProgress_def jmin_def)
  have n: "(3 - (2 + 1 / 2) :: real) = 1 / 2" by simp
  show ?thesis unfolding n using g p d e by simp
qed

subsection \<open>The entry phase\<close>




end
